theory Spec2Isabelle
  imports Main
begin

section \<open>The command line interface of rsync-system-backup (src/cli.py)\<close>

text \<open>
  The module has two functions: \<open>main\<close>, which turns the parsed command line into the
  keyword arguments of the backup program, runs it and decides the exit status, and
  \<open>enable_explicit_action\<close>, which records an explicitly requested action.

  Python strings are modelled as \<open>string\<close>, one \<open>char\<close> per code point below 256.
  Dictionaries with computed keys are maps; a dictionary that only ever holds a fixed set of
  keyword arguments is a record whose optional keys are \<open>option\<close> fields. Exceptions are
  values; the log, the usage text and the warning printed on the terminal are a list of
  events, oldest first.
\<close>

subsection \<open>Values, dictionaries and events\<close>

text \<open>
  \<open>SecureTunnel(**tunnel_opts)\<close>: the object is represented by the keyword arguments it is
  built from; the key \<open>port\<close> is only present when the tunnel expression has a port.
\<close>

record secure_tunnel =
  ssh_alias :: string
  ssh_user :: string
  remote_port :: int
  port :: "int option"

text \<open>The dictionary \<open>dest_opts\<close>: the keyword arguments of \<open>Destination\<close>.\<close>

record destination_options =
  ssh_tunnel :: "secure_tunnel option"
  expression :: "string option"

text \<open>
  The values stored in \<open>program_opts\<close>: booleans, strings, the list of exclude patterns,
  the destination object (of type \<open>'d\<close>, built by the \<open>Destination\<close> class) and the
  execution context returned by \<open>create_context()\<close>, which is called without arguments
  because \<open>context_opts\<close> stays empty.
\<close>

datatype 'd val = VBool bool | VStr string | VList "string list" | VDest 'd | VContext

type_synonym 'd options = "string \<rightharpoonup> 'd val"

text \<open>
  The exceptions that can leave the first \<open>try\<close> block of \<open>main\<close>:
  \<^item> \<open>GetoptError\<close>: raised by \<open>getopt.gnu_getopt\<close>, with its message;
  \<^item> \<open>Invalid_literal\<close>: the \<open>ValueError\<close> of \<open>int(port_number)\<close>, with the literal;
  \<^item> \<open>Invalid_ionice_class\<close>: the exception of \<open>validate_ionice_class(value)\<close>, with the value;
  \<^item> \<open>AttributeError\<close>: \<open>.append\<close> on a value that is not a list;
  \<^item> \<open>Destination_error\<close>: an exception raised by \<open>Destination(**dest_opts)\<close>, with its message;
  \<^item> \<open>Usage_error\<close>: an exception raised by \<open>usage(__doc__)\<close>, with its message;
  \<^item> \<open>Exception\<close>: raised by \<open>main\<close> itself, with its message.
\<close>

datatype error =
    GetoptError string
  | Invalid_literal string
  | Invalid_ionice_class string
  | AttributeError
  | Destination_error string
  | Usage_error string
  | Exception string

text \<open>
  Modelled from the spec: the exception classes of \<open>rsync_system_backup.exceptions\<close>, which
  is not among the source files. The specification counts "backup disk missing" among the
  recognized domain errors, so \<open>MissingBackupDiskError\<close> is a subclass of
  \<open>RsyncSystemBackupError\<close>; \<open>Other_exception\<close> stands for every other subclass of
  \<open>Exception\<close>. Each carries its message.
\<close>

datatype exc =
    MissingBackupDiskError string
  | RsyncSystemBackupError string
  | Other_exception string

fun isinstance_RsyncSystemBackupError :: "exc \<Rightarrow> bool" where
  "isinstance_RsyncSystemBackupError (MissingBackupDiskError _) = True"
| "isinstance_RsyncSystemBackupError (RsyncSystemBackupError _) = True"
| "isinstance_RsyncSystemBackupError (Other_exception _) = False"

fun isinstance_MissingBackupDiskError :: "exc \<Rightarrow> bool" where
  "isinstance_MissingBackupDiskError (MissingBackupDiskError _) = True"
| "isinstance_MissingBackupDiskError _ = False"

fun str_exc :: "exc \<Rightarrow> string" where
  "str_exc (MissingBackupDiskError m) = m"
| "str_exc (RsyncSystemBackupError m) = m"
| "str_exc (Other_exception m) = m"

text \<open>
  What the user sees. \<open>Log l tb m\<close> is a record of the logger at level \<open>l\<close> with message
  \<open>m\<close>; \<open>tb\<close> tells whether the traceback is attached (\<open>logger.exception\<close> logs at error
  level with the traceback). \<open>Usage\<close> is a call \<open>usage(__doc__)\<close> that returned, \<open>Warning e\<close>
  is \<open>warning("Error: %s", e)\<close>; the last two are the calls that change the verbosity.
\<close>

datatype level = INFO | ERROR

datatype event =
    Log level bool string
  | Usage
  | Warning error
  | Increase_verbosity
  | Decrease_verbosity

subsection \<open>What \<open>main\<close> takes from outside the module\<close>

text \<open>
  \<^item> \<open>RSYNCD_PORT\<close>: the constant imported from \<open>rsync_system_backup.destinations\<close>;
  \<^item> \<open>validate_ionice_class v\<close>: whether \<open>validate_ionice_class(v)\<close> returns (it raises
    otherwise);
  \<^item> \<open>Destination\<close>: the constructor \<open>Destination(**dest_opts)\<close>, which returns the object
    or raises (\<open>Inl\<close> the message);
  \<^item> \<open>RSYNC_MODULE_PATH\<close>: \<open>os.environ.get('RSYNC_MODULE_PATH')\<close>;
  \<^item> \<open>connected_to_terminal\<close>: the answer of \<open>connected_to_terminal()\<close>;
  \<^item> \<open>usage text\<close>: \<open>usage(text)\<close> of \<open>humanfriendly.terminal\<close>, \<open>None\<close> when it returns and
    \<open>Some m\<close> when it raises an exception with the message \<open>m\<close>;
  \<^item> \<open>execute opts\<close>: \<open>RsyncSystemBackup(**opts).execute()\<close>, \<open>None\<close> when it returns and
    \<open>Some e\<close> when it raises the exception \<open>e\<close>.
\<close>

record 'd env =
  RSYNCD_PORT :: int
  validate_ionice_class :: "string \<Rightarrow> bool"
  Destination :: "destination_options \<Rightarrow> string + 'd"
  RSYNC_MODULE_PATH :: "string option"
  connected_to_terminal :: bool
  usage :: "string option \<Rightarrow> string option"
  execute :: "'d options \<Rightarrow> exc option"

text \<open>
  \<open>__doc__\<close>, the documentation string of the module, which \<open>main\<close> passes to \<open>usage\<close>: the
  file has no documentation string of its own (only \<open>main\<close> and \<open>enable_explicit_action\<close>
  have one), so the value is Python's \<open>None\<close>.
\<close>

definition doc :: "string option" where
  "doc = None"

subsection \<open>\<open>enable_explicit_action\<close>\<close>

text \<open>\<open>dict.setdefault(key, default)\<close>, for its effect on the dictionary.\<close>

definition setdefault :: "('k \<rightharpoonup> 'v) \<Rightarrow> 'k \<Rightarrow> 'v \<Rightarrow> ('k \<rightharpoonup> 'v)" where
  "setdefault d key dflt = (case d key of None \<Rightarrow> d(key \<mapsto> dflt) | Some _ \<Rightarrow> d)"

text \<open>The tuple the \<open>for\<close> loop of \<open>enable_explicit_action\<close> runs over.\<close>

definition actions :: "string list" where
  "actions = [''backup_enabled'', ''snapshot_enabled'', ''rotate_enabled'']"

definition enable_explicit_action :: "'d options \<Rightarrow> string \<Rightarrow> 'd options" where
  "enable_explicit_action options explicit_action =
     foldl (\<lambda>opts implicit_action.
              if implicit_action \<noteq> explicit_action
              then setdefault opts implicit_action (VBool False)
              else opts)
           (options(explicit_action \<mapsto> VBool True))
           actions"

subsection \<open>The string operations \<open>main\<close> uses\<close>

text \<open>
  \<open>s.partition(sep)\<close> and \<open>s.rpartition(sep)\<close> for a separator of one character: the
  part before the first (last) occurrence, the separator, and the part after it. Without an
  occurrence \<open>partition\<close> gives \<open>(s, '', '')\<close> and \<open>rpartition\<close> gives \<open>('', '', s)\<close>.
\<close>

definition str_partition :: "string \<Rightarrow> char \<Rightarrow> string \<times> string \<times> string" where
  "str_partition s sep =
     (if sep \<in> set s
      then (takeWhile (\<lambda>c. c \<noteq> sep) s, [sep], tl (dropWhile (\<lambda>c. c \<noteq> sep) s))
      else (s, [], []))"

definition str_rpartition :: "string \<Rightarrow> char \<Rightarrow> string \<times> string \<times> string" where
  "str_rpartition s sep =
     (if sep \<in> set s
      then (rev (tl (dropWhile (\<lambda>c. c \<noteq> sep) (rev s))), [sep],
            rev (takeWhile (\<lambda>c. c \<noteq> sep) (rev s)))
      else ([], [], s))"

text \<open>
  \<open>str.isspace\<close> on one character, \<open>s.strip()\<close> and \<open>s.lower()\<close>, for code points below
  256: the white space is TAB to CR, FS to US, the space, NEL and the no-break space; the
  letters with a lower-case form are A to Z and the Latin-1 capitals.
\<close>

definition isspace :: "char \<Rightarrow> bool" where
  "isspace c = ((of_char c :: nat) \<in> set [9, 10, 11, 12, 13, 28, 29, 30, 31, 32, 133, 160])"

definition strip :: "string \<Rightarrow> string" where
  "strip s = rev (dropWhile isspace (rev (dropWhile isspace s)))"

definition lower_char :: "char \<Rightarrow> char" where
  "lower_char c =
     (let n = (of_char c :: nat)
      in if (65 \<le> n \<and> n \<le> 90) \<or> (192 \<le> n \<and> n \<le> 222 \<and> n \<noteq> 215)
         then char_of (n + 32) else c)"

definition lower :: "string \<Rightarrow> string" where
  "lower s = map lower_char s"

text \<open>
  \<open>int(s)\<close> for a string: white space around the literal is dropped (for \<open>int\<close> the
  characters FS to US do not count as white space), then comes an optional sign, then
  decimal digits, where one underscore may stand between two digits. \<open>None\<close> is the
  \<open>ValueError\<close>. The limit that recent interpreters put on the number of digits
  (\<open>sys.set_int_max_str_digits\<close>) is a setting of the interpreter and is left out.
\<close>

definition int_space :: "char \<Rightarrow> bool" where
  "int_space c = ((of_char c :: nat) \<in> set [9, 10, 11, 12, 13, 32, 133, 160])"

definition isdigit :: "char \<Rightarrow> bool" where
  "isdigit c = (48 \<le> (of_char c :: nat) \<and> (of_char c :: nat) \<le> 57)"

definition digit_value :: "char \<Rightarrow> nat" where
  "digit_value c = of_char c - 48"

fun int_digits :: "nat \<Rightarrow> string \<Rightarrow> nat option" where
  "int_digits acc [] = Some acc"
| "int_digits acc (c # cs) =
     (if isdigit c then int_digits (10 * acc + digit_value c) cs
      else if c = CHR ''_'' then
        (case cs of
           [] \<Rightarrow> None
         | d # ds \<Rightarrow> if isdigit d then int_digits (10 * acc + digit_value d) ds else None)
      else None)"

definition int_literal :: "string \<Rightarrow> nat option" where
  "int_literal s =
     (case s of
        [] \<Rightarrow> None
      | c # cs \<Rightarrow> if isdigit c then int_digits (digit_value c) cs else None)"

definition py_int :: "string \<Rightarrow> int option" where
  "py_int s =
     (case rev (dropWhile int_space (rev (dropWhile int_space s))) of
        [] \<Rightarrow> None
      | c # cs \<Rightarrow>
          if c = CHR ''+'' then map_option int (int_literal cs)
          else if c = CHR ''-'' then map_option (\<lambda>n. - int n) (int_literal cs)
          else map_option int (int_literal (c # cs)))"

text \<open>The \<open>%i\<close> conversion of a length: the decimal digits of a natural number.\<close>

fun str_nat :: "nat \<Rightarrow> string" where
  "str_nat n =
     (if n < 10 then [char_of (48 + n)]
      else str_nat (n div 10) @ [char_of (48 + n mod 10)])"

declare str_nat.simps [simp del]

subsection \<open>\<open>main\<close>: the loop over the options\<close>

text \<open>
  The state of the first \<open>try\<close> block: the two dictionaries that \<open>main\<close> fills and what
  has been shown so far. A step of the block either goes on, raises (the dictionaries are
  as the step left them), or returns from \<open>main\<close>. \<open>state_of\<close> reads the state in
  each case.
\<close>

record 'd state =
  program_opts :: "'d options"
  dest_opts :: destination_options
  shown :: "event list"

datatype 'd flow =
    Next (state_of: "'d state")
  | Raised error (state_of: "'d state")
  | Returned (state_of: "'d state")

text \<open>
  The branch of \<open>-t\<close>, \<open>--tunnel\<close> up to the call of \<open>SecureTunnel\<close>: \<open>Inl\<close> when
  \<open>int(port_number)\<close> raises, else the tunnel built from \<open>tunnel_opts\<close>.
\<close>

definition tunnel_option :: "'d env \<Rightarrow> string \<Rightarrow> error + secure_tunnel" where
  "tunnel_option env v =
     (case str_rpartition v (CHR ''@'') of (ssh_user', _, v') \<Rightarrow>
      case str_partition v' (CHR '':'') of (ssh_alias', _, port_number) \<Rightarrow>
      let tunnel_opts = \<lparr>ssh_alias = ssh_alias', ssh_user = ssh_user',
                         remote_port = RSYNCD_PORT env, port = None\<rparr>
      in if port_number \<noteq> [] then
           (case py_int port_number of
              None \<Rightarrow> Inl (Invalid_literal port_number)
            | Some n \<Rightarrow> Inr (tunnel_opts\<lparr>port := Some n\<rparr>))
         else Inr tunnel_opts)"

text \<open>The body of \<open>for option, value in options\<close>, one branch per \<open>elif\<close>, in order.\<close>

definition loop_body :: "'d env \<Rightarrow> string \<Rightarrow> string \<Rightarrow> 'd state \<Rightarrow> 'd flow" where
  "loop_body env option v st =
     (if option \<in> {''-b'', ''--backup''} then
        Next (st\<lparr>program_opts := enable_explicit_action (program_opts st) ''backup_enabled''\<rparr>)
      else if option \<in> {''-s'', ''--snapshot''} then
        Next (st\<lparr>program_opts := enable_explicit_action (program_opts st) ''snapshot_enabled''\<rparr>)
      else if option \<in> {''-r'', ''--rotate''} then
        Next (st\<lparr>program_opts := enable_explicit_action (program_opts st) ''rotate_enabled''\<rparr>)
      else if option \<in> {''-m'', ''--mount''} then
        Next (st\<lparr>program_opts := (program_opts st)(''mount_point'' \<mapsto> VStr v)\<rparr>)
      else if option \<in> {''-c'', ''--crypto''} then
        Next (st\<lparr>program_opts := (program_opts st)(''crypto_device'' \<mapsto> VStr v)\<rparr>)
      else if option \<in> {''-t'', ''--tunnel''} then
        (case tunnel_option env v of
           Inl e \<Rightarrow> Raised e st
         | Inr tunnel \<Rightarrow> Next (st\<lparr>dest_opts := (dest_opts st)\<lparr>ssh_tunnel := Some tunnel\<rparr>\<rparr>))
      else if option \<in> {''-i'', ''--ionice''} then
        (let v' = strip (lower v)
         in if validate_ionice_class env v'
            then Next (st\<lparr>program_opts := (program_opts st)(''ionice'' \<mapsto> VStr v')\<rparr>)
            else Raised (Invalid_ionice_class v') st)
      else if option \<in> {''-u'', ''--no-sudo''} then
        Next (st\<lparr>program_opts := (program_opts st)(''sudo_enabled'' \<mapsto> VBool False)\<rparr>)
      else if option \<in> {''-n'', ''--dry-run''} then
        Next (st\<lparr>shown := shown st @
                      [Log INFO False (''Performing a dry run (because of '' @ option @ '' option) ..'')],
                   program_opts := (program_opts st)(''dry_run'' \<mapsto> VBool True)\<rparr>)
      else if option \<in> {''-f'', ''--force''} then
        Next (st\<lparr>program_opts := (program_opts st)(''force'' \<mapsto> VBool True)\<rparr>)
      else if option \<in> {''-x'', ''--exclude''} then
        (let opts = setdefault (program_opts st) ''exclude_list'' (VList [])
         in case opts ''exclude_list'' of
              Some (VList xs) \<Rightarrow>
                Next (st\<lparr>program_opts := opts(''exclude_list'' \<mapsto> VList (xs @ [v]))\<rparr>)
            | _ \<Rightarrow> Raised AttributeError (st\<lparr>program_opts := opts\<rparr>))
      else if option = ''--multi-fs'' then
        Next (st\<lparr>program_opts := (program_opts st)(''multi_fs'' \<mapsto> VBool True)\<rparr>)
      else if option = ''--disable-notifications'' then
        Next (st\<lparr>program_opts := (program_opts st)(''notifications_enabled'' \<mapsto> VBool False)\<rparr>)
      else if option \<in> {''-v'', ''--verbose''} then
        Next (st\<lparr>shown := shown st @ [Increase_verbosity]\<rparr>)
      else if option \<in> {''-q'', ''--quiet''} then
        Next (st\<lparr>shown := shown st @ [Decrease_verbosity]\<rparr>)
      else if option \<in> {''-h'', ''--help''} then
        (case usage env doc of
           Some m \<Rightarrow> Raised (Usage_error m) st
         | None \<Rightarrow> Returned (st\<lparr>shown := shown st @ [Usage]\<rparr>))
      else Raised (Exception ''Unhandled option! (programming error)'') st)"

fun for_options :: "'d env \<Rightarrow> (string \<times> string) list \<Rightarrow> 'd state \<Rightarrow> 'd flow" where
  "for_options env [] st = Next st"
| "for_options env ((option, v) # rest) st =
     (case loop_body env option v st of
        Next st' \<Rightarrow> for_options env rest st'
      | Raised e st' \<Rightarrow> Raised e st'
      | Returned st' \<Rightarrow> Returned st')"

subsection \<open>\<open>main\<close>: the positional arguments\<close>

text \<open>
  The statements after the loop, up to the end of the first \<open>try\<close> block.
  \<open>arguments.pop(0)\<close> leaves the tail of the list.
\<close>

definition positional_arguments :: "'d env \<Rightarrow> string list \<Rightarrow> 'd state \<Rightarrow> 'd flow" where
  "positional_arguments env arguments st =
     (if length arguments > 2 then
        Raised (Exception (''Expected one or two positional arguments! (got ''
                            @ str_nat (length arguments) @ '')'')) st
      else
        (case (if length arguments = 2
               then (st\<lparr>program_opts := (program_opts st)(''source'' \<mapsto> VStr (hd arguments))\<rparr>,
                     tl arguments)
               else (st, arguments)) of
           (st1, arguments1) \<Rightarrow>
             if arguments1 \<noteq> [] then
               (let st2 = st1\<lparr>dest_opts := (dest_opts st1)\<lparr>expression := Some (hd arguments1)\<rparr>\<rparr>
                in case Destination env (dest_opts st2) of
                     Inl m \<Rightarrow> Raised (Destination_error m) st2
                   | Inr d \<Rightarrow>
                       Next (st2\<lparr>program_opts := (program_opts st2)(''destination'' \<mapsto> VDest d)\<rparr>))
             else if RSYNC_MODULE_PATH env = None \<or> RSYNC_MODULE_PATH env = Some []
             then (case usage env doc of
                     Some m \<Rightarrow> Raised (Usage_error m) st1
                   | None \<Rightarrow> Returned (st1\<lparr>shown := shown st1 @ [Usage]\<rparr>))
             else Next st1))"

text \<open>
  The first \<open>try\<close> block without its handler. Its input is what
  \<open>getopt.gnu_getopt(sys.argv[1:], ...)\<close> gives for the command line: the message of the
  error it raises, or the options (each with its value, in the order of the command line)
  and the positional arguments.
\<close>

definition initial :: "'d state" where
  "initial = \<lparr>program_opts = Map.empty,
              dest_opts = \<lparr>ssh_tunnel = None, expression = None\<rparr>,
              shown = []\<rparr>"

definition parse_arguments ::
  "'d env \<Rightarrow> string + ((string \<times> string) list \<times> string list) \<Rightarrow> 'd flow" where
  "parse_arguments env parsed =
     (case parsed of
        Inl m \<Rightarrow> Raised (GetoptError m) initial
      | Inr (options, arguments) \<Rightarrow>
          (case for_options env options initial of
             Next st \<Rightarrow> positional_arguments env arguments st
           | Raised e st \<Rightarrow> Raised e st
           | Returned st \<Rightarrow> Returned st))"

subsection \<open>\<open>main\<close>: running the program and the exit status\<close>

text \<open>
  How a call of \<open>main\<close> ends: \<open>sys.exit(n)\<close>, or a plain return. A process whose entry
  point returns ends with status 0.
\<close>

datatype ending = Exit int | Return

fun exit_status :: "ending \<Rightarrow> int" where
  "exit_status (Exit n) = n"
| "exit_status Return = 0"

text \<open>The handler of the second \<open>try\<close> block: what it logs and how \<open>main\<close> ends.\<close>

definition handle_failure :: "'d env \<Rightarrow> exc \<Rightarrow> event list \<times> ending" where
  "handle_failure env e =
     (if isinstance_RsyncSystemBackupError e then
        (if isinstance_MissingBackupDiskError e \<and> \<not> connected_to_terminal env
         then ([Log INFO False (''Skipping backup: '' @ str_exc e)], Exit 0)
         else ([Log ERROR False (''Aborting due to error: '' @ str_exc e)], Exit 1))
      else ([Log ERROR True ''Aborting due to unhandled exception!''], Exit 1))"

text \<open>
  A run of \<open>main\<close>: everything shown, the options the program was executed with (\<open>None\<close>
  when \<open>RsyncSystemBackup(...).execute()\<close> was not reached), and the ending.
\<close>

record 'd run =
  displayed :: "event list"
  executed :: "'d options option"
  ended :: ending

definition main ::
  "'d env \<Rightarrow> string + ((string \<times> string) list \<times> string list) \<Rightarrow> 'd run" where
  "main env parsed =
     (case parse_arguments env parsed of
        Raised e st \<Rightarrow> \<lparr>displayed = shown st @ [Warning e], executed = None, ended = Exit 1\<rparr>
      | Returned st \<Rightarrow> \<lparr>displayed = shown st, executed = None, ended = Return\<rparr>
      | Next st \<Rightarrow>
          (let opts = (program_opts st)(''source_context'' \<mapsto> VContext)
           in case execute env opts of
                None \<Rightarrow> \<lparr>displayed = shown st, executed = Some opts, ended = Return\<rparr>
              | Some e \<Rightarrow>
                  (case handle_failure env e of
                     (logged, how) \<Rightarrow>
                       \<lparr>displayed = shown st @ logged, executed = Some opts, ended = how\<rparr>)))"

subsection \<open>An environment to run the model in\<close>

text \<open>
  The port of the rsync daemon is 873 and the I/O scheduling classes are those of
  \<open>ionice\<close>; the destination object is represented by its keyword arguments and its
  constructor accepts them all. The outcome of the backup program, the terminal and the
  environment variable are chosen by the arguments. \<open>usage\<close> shows a text it is given;
  given \<open>None\<close>, it prints that when no terminal is attached and fails when one is, where
  it formats the text first (the message of this failure is an example).
\<close>

definition example_env :: "exc option \<Rightarrow> bool \<Rightarrow> string option \<Rightarrow> destination_options env" where
  "example_env failure terminal module_path =
     \<lparr>RSYNCD_PORT = 873,
      validate_ionice_class =
        (\<lambda>v. v \<in> set [''idle'', ''best-effort'', ''realtime'', ''1'', ''2'', ''3'']),
      Destination = Inr,
      RSYNC_MODULE_PATH = module_path,
      connected_to_terminal = terminal,
      usage = (\<lambda>text. if text = None \<and> terminal
                       then Some ''expected string or bytes-like object'' else None),
      execute = (\<lambda>_. failure)\<rparr>"

section \<open>Properties\<close>

subsection \<open>Explicit actions\<close>

lemma enable_explicit_action_apply:
  "enable_explicit_action bag a k =
     (if k = a then Some (VBool True)
      else if k \<in> set actions
           then (case bag k of None \<Rightarrow> Some (VBool False) | Some v \<Rightarrow> Some v)
           else bag k)"
  by (simp add: enable_explicit_action_def actions_def setdefault_def split: option.splits)




subsection \<open>The tunnel expression\<close>

lemma str_partition_first:
  assumes "sep \<notin> set h"
  shows "str_partition (h @ sep # t) sep = (h, [sep], t)"
proof -
  have "takeWhile (\<lambda>c. c \<noteq> sep) (h @ sep # t) = h @ takeWhile (\<lambda>c. c \<noteq> sep) (sep # t)"
    by (rule takeWhile_append2) (use assms in auto)
  moreover
  have "dropWhile (\<lambda>c. c \<noteq> sep) (h @ sep # t) = dropWhile (\<lambda>c. c \<noteq> sep) (sep # t)"
    by (rule dropWhile_append2) (use assms in auto)
  ultimately show ?thesis
    by (simp add: str_partition_def)
qed

lemma str_partition_none:
  "sep \<notin> set s \<Longrightarrow> str_partition s sep = (s, [], [])"
  by (simp add: str_partition_def)

lemma str_rpartition_last:
  assumes "sep \<notin> set t"
  shows "str_rpartition (h @ sep # t) sep = (h, [sep], t)"
proof -
  have "takeWhile (\<lambda>c. c \<noteq> sep) (rev t @ sep # rev h)
          = rev t @ takeWhile (\<lambda>c. c \<noteq> sep) (sep # rev h)"
    by (rule takeWhile_append2) (use assms in auto)
  moreover
  have "dropWhile (\<lambda>c. c \<noteq> sep) (rev t @ sep # rev h)
          = dropWhile (\<lambda>c. c \<noteq> sep) (sep # rev h)"
    by (rule dropWhile_append2) (use assms in auto)
  ultimately show ?thesis
    by (simp add: str_rpartition_def)
qed

lemma str_rpartition_none:
  "sep \<notin> set s \<Longrightarrow> str_rpartition s sep = ([], [], s)"
  by (simp add: str_rpartition_def)

lemma py_int_2222: "py_int ''2222'' = Some 2222"
  by (simp add: py_int_def int_space_def int_literal_def isdigit_def digit_value_def)

text \<open>
  Claim C2. The value of the tunnel flag is split at its last \<open>@\<close>: what precedes it is
  \<open>ssh_user\<close>, which is empty when there is no \<open>@\<close>. The remainder is split at its
  first colon: what precedes it is \<open>ssh_alias\<close>, and what follows it, when it is not empty,
  is converted by \<open>int\<close> and is the port of the SSH server (a remainder without colon
  gives no port). The port of the rsync daemon is \<open>RSYNCD_PORT\<close> whatever the value is.
  Every value has exactly one of the four forms below, \<open>host\<close> and \<open>p\<close> being free of
  \<open>@\<close> and \<open>host\<close> free of colons. The two values of the specification come last.
\<close>

theorem tunnel_option_parse:
  assumes "CHR ''@'' \<notin> set host" and "CHR ''@'' \<notin> set p" and "CHR '':'' \<notin> set host"
  shows
    "tunnel_option env (user @ ''@'' @ host @ '':'' @ p) =
       (if p = [] then Inr \<lparr>ssh_alias = host, ssh_user = user,
                             remote_port = RSYNCD_PORT env, port = None\<rparr>
        else case py_int p of
               None \<Rightarrow> Inl (Invalid_literal p)
             | Some n \<Rightarrow> Inr \<lparr>ssh_alias = host, ssh_user = user,
                               remote_port = RSYNCD_PORT env, port = Some n\<rparr>) \<and>
     tunnel_option env (user @ ''@'' @ host) =
       Inr \<lparr>ssh_alias = host, ssh_user = user, remote_port = RSYNCD_PORT env, port = None\<rparr> \<and>
     tunnel_option env (host @ '':'' @ p) =
       (if p = [] then Inr \<lparr>ssh_alias = host, ssh_user = [],
                             remote_port = RSYNCD_PORT env, port = None\<rparr>
        else case py_int p of
               None \<Rightarrow> Inl (Invalid_literal p)
             | Some n \<Rightarrow> Inr \<lparr>ssh_alias = host, ssh_user = [],
                               remote_port = RSYNCD_PORT env, port = Some n\<rparr>) \<and>
     tunnel_option env host =
       Inr \<lparr>ssh_alias = host, ssh_user = [], remote_port = RSYNCD_PORT env, port = None\<rparr> \<and>
     tunnel_option env ''alice@backup-host:2222'' =
       Inr \<lparr>ssh_alias = ''backup-host'', ssh_user = ''alice'',
            remote_port = RSYNCD_PORT env, port = Some 2222\<rparr> \<and>
     tunnel_option env ''backup-host'' =
       Inr \<lparr>ssh_alias = ''backup-host'', ssh_user = [],
            remote_port = RSYNCD_PORT env, port = None\<rparr>"
proof -
  have at_rest: "CHR ''@'' \<notin> set (host @ CHR '':'' # p)"
    using assms(1,2) by simp
  have r1: "str_rpartition (user @ CHR ''@'' # host @ CHR '':'' # p) (CHR ''@'')
              = (user, ''@'', host @ CHR '':'' # p)"
    using str_rpartition_last [OF at_rest] by simp
  have r2: "str_rpartition (user @ CHR ''@'' # host) (CHR ''@'') = (user, ''@'', host)"
    using str_rpartition_last [OF assms(1)] by simp
  have r3: "str_rpartition (host @ CHR '':'' # p) (CHR ''@'') = ([], [], host @ CHR '':'' # p)"
    using str_rpartition_none [OF at_rest] .
  have r4: "str_rpartition host (CHR ''@'') = ([], [], host)"
    using str_rpartition_none [OF assms(1)] .
  have p1: "str_partition (host @ CHR '':'' # p) (CHR '':'') = (host, '':'', p)"
    using str_partition_first [OF assms(3)] by simp
  have p2: "str_partition host (CHR '':'') = (host, [], [])"
    using str_partition_none [OF assms(3)] .
  have c1: "tunnel_option env (user @ ''@'' @ host @ '':'' @ p) =
       (if p = [] then Inr \<lparr>ssh_alias = host, ssh_user = user,
                             remote_port = RSYNCD_PORT env, port = None\<rparr>
        else case py_int p of
               None \<Rightarrow> Inl (Invalid_literal p)
             | Some n \<Rightarrow> Inr \<lparr>ssh_alias = host, ssh_user = user,
                               remote_port = RSYNCD_PORT env, port = Some n\<rparr>)"
    by (simp add: tunnel_option_def r1 p1 split: option.splits)
  have c2: "tunnel_option env (user @ ''@'' @ host) =
       Inr \<lparr>ssh_alias = host, ssh_user = user, remote_port = RSYNCD_PORT env, port = None\<rparr>"
    by (simp add: tunnel_option_def r2 p2)
  have c3: "tunnel_option env (host @ '':'' @ p) =
       (if p = [] then Inr \<lparr>ssh_alias = host, ssh_user = [],
                             remote_port = RSYNCD_PORT env, port = None\<rparr>
        else case py_int p of
               None \<Rightarrow> Inl (Invalid_literal p)
             | Some n \<Rightarrow> Inr \<lparr>ssh_alias = host, ssh_user = [],
                               remote_port = RSYNCD_PORT env, port = Some n\<rparr>)"
    by (simp add: tunnel_option_def r3 p1 split: option.splits)
  have c4: "tunnel_option env host =
       Inr \<lparr>ssh_alias = host, ssh_user = [], remote_port = RSYNCD_PORT env, port = None\<rparr>"
    by (simp add: tunnel_option_def r4 p2)
  have c5: "tunnel_option env ''alice@backup-host:2222'' =
       Inr \<lparr>ssh_alias = ''backup-host'', ssh_user = ''alice'',
            remote_port = RSYNCD_PORT env, port = Some 2222\<rparr>"
    by (simp add: tunnel_option_def str_partition_def str_rpartition_def py_int_2222)
  have c6: "tunnel_option env ''backup-host'' =
       Inr \<lparr>ssh_alias = ''backup-host'', ssh_user = [],
            remote_port = RSYNCD_PORT env, port = None\<rparr>"
    by (simp add: tunnel_option_def str_partition_def str_rpartition_def)
  from c1 c2 c3 c4 c5 c6 show ?thesis by blast
qed

theorem tunnel_option_parse_witness:
  "CHR ''@'' \<notin> set ''backup-host'' \<and> CHR ''@'' \<notin> set ''2222'' \<and> CHR '':'' \<notin> set ''backup-host'' \<and>
   tunnel_option (example_env None True None) ''alice@backup-host:2222'' =
     Inr \<lparr>ssh_alias = ''backup-host'', ssh_user = ''alice'', remote_port = 873, port = Some 2222\<rparr> \<and>
   tunnel_option (example_env None True None) ''backup-host:2222'' =
     Inr \<lparr>ssh_alias = ''backup-host'', ssh_user = [], remote_port = 873, port = Some 2222\<rparr> \<and>
   tunnel_option (example_env None True None) ''alice@backup-host'' =
     Inr \<lparr>ssh_alias = ''backup-host'', ssh_user = ''alice'', remote_port = 873, port = None\<rparr>"
  using tunnel_option_parse [where host = "''backup-host''" and p = "''2222''" and user = "''alice''"
                             and env = "example_env None True None"]
  by (simp add: py_int_2222 example_env_def)


subsection \<open>The tunnel flag in the loop over the options\<close>

lemma for_options_append:
  "for_options env (xs @ ys) st =
     (case for_options env xs st of
        Next st' \<Rightarrow> for_options env ys st'
      | Raised e st' \<Rightarrow> Raised e st'
      | Returned st' \<Rightarrow> Returned st')"
  by (induction xs arbitrary: st) (auto split: flow.splits)

lemma loop_body_tunnel:
  "option \<in> {''-t'', ''--tunnel''} \<Longrightarrow>
   loop_body env option v st =
     (case tunnel_option env v of
        Inl e \<Rightarrow> Raised e st
      | Inr tunnel \<Rightarrow> Next (st\<lparr>dest_opts := (dest_opts st)\<lparr>ssh_tunnel := Some tunnel\<rparr>\<rparr>))"
  by (elim insertE emptyE) (simp_all add: loop_body_def)

lemma main_Raised:
  "parse_arguments env parsed = Raised e st \<Longrightarrow>
   main env parsed = \<lparr>displayed = shown st @ [Warning e], executed = None, ended = Exit 1\<rparr>"
  by (simp add: main_def)

lemma parse_arguments_stops:
  assumes "for_options env pre initial = Next st"
      and "loop_body env option v st = Raised e st'"
  shows "parse_arguments env (Inr (pre @ (option, v) # post, arguments)) = Raised e st'"
  using assms by (simp add: parse_arguments_def for_options_append)

text \<open>
  Claim C10. When the part of the tunnel value after the first colon of the remainder is
  empty (there is no colon, or nothing follows it, as in \<open>backup-host:\<close>), the tunnel
  flag is processed without error: the tunnel is built without the key \<open>port\<close> and stored
  in \<open>dest_opts\<close>, and the loop goes on.
\<close>

theorem empty_port_segment:
  assumes "option \<in> {''-t'', ''--tunnel''}"
      and "str_rpartition v (CHR ''@'') = (user, s1, rest)"
      and "str_partition rest (CHR '':'') = (host, s2, [])"
  shows "loop_body env option v st =
           Next (st\<lparr>dest_opts := (dest_opts st)
                   \<lparr>ssh_tunnel := Some \<lparr>ssh_alias = host, ssh_user = user,
                                        remote_port = RSYNCD_PORT env, port = None\<rparr>\<rparr>\<rparr>) \<and>
         tunnel_option env ''backup-host:'' =
           Inr \<lparr>ssh_alias = ''backup-host'', ssh_user = [],
                remote_port = RSYNCD_PORT env, port = None\<rparr>"
proof -
  have "tunnel_option env v =
          Inr \<lparr>ssh_alias = host, ssh_user = user, remote_port = RSYNCD_PORT env, port = None\<rparr>"
    using assms(2,3) by (simp add: tunnel_option_def)
  moreover
  have "tunnel_option env ''backup-host:'' =
          Inr \<lparr>ssh_alias = ''backup-host'', ssh_user = [],
               remote_port = RSYNCD_PORT env, port = None\<rparr>"
    by (simp add: tunnel_option_def str_partition_def str_rpartition_def)
  ultimately show ?thesis
    by (simp add: loop_body_tunnel [OF assms(1)])
qed

theorem empty_port_segment_witness:
  "''--tunnel'' \<in> {''-t'', ''--tunnel''} \<and>
   str_rpartition ''alice@backup-host:'' (CHR ''@'') = (''alice'', ''@'', ''backup-host:'') \<and>
   str_partition ''backup-host:'' (CHR '':'') = (''backup-host'', '':'', []) \<and>
   loop_body (example_env None True None) ''--tunnel'' ''alice@backup-host:'' initial =
     Next \<lparr>program_opts = Map.empty,
           dest_opts = \<lparr>ssh_tunnel = Some \<lparr>ssh_alias = ''backup-host'', ssh_user = ''alice'',
                                            remote_port = 873, port = None\<rparr>,
                        expression = None\<rparr>,
           shown = []\<rparr>"
proof -
  have a: "''--tunnel'' \<in> {''-t'', ''--tunnel''}"
    by simp
  have b: "str_rpartition ''alice@backup-host:'' (CHR ''@'') = (''alice'', ''@'', ''backup-host:'')"
    by (simp add: str_rpartition_def)
  have c: "str_partition ''backup-host:'' (CHR '':'') = (''backup-host'', '':'', [])"
    by (simp add: str_partition_def)
  show ?thesis
    using a b c
      empty_port_segment [OF a b c, where env = "example_env None True None" and st = initial]
    by (simp add: initial_def example_env_def)
qed

text \<open>
  Claim C8. Let the loop reach a tunnel flag whose port segment (what follows the first
  colon of the remainder after the last \<open>@\<close>) is not empty and is not a number, that is,
  \<open>int\<close> rejects it. Then the first \<open>try\<close> block raises at this flag, with the
  dictionaries as the earlier flags left them (no tunnel has been built for this flag);
  \<open>main\<close> prints the error as a warning, exits with status 1 and does not execute the
  backup program.
\<close>

theorem malformed_tunnel_port:
  assumes "option \<in> {''-t'', ''--tunnel''}"
      and "str_rpartition v (CHR ''@'') = (user, s1, rest)"
      and "str_partition rest (CHR '':'') = (host, s2, port_number)"
      and "port_number \<noteq> []"
      and "py_int port_number = None"
      and "for_options env pre initial = Next st"
  shows "parse_arguments env (Inr (pre @ (option, v) # post, arguments))
           = Raised (Invalid_literal port_number) st \<and>
         main env (Inr (pre @ (option, v) # post, arguments))
           = \<lparr>displayed = shown st @ [Warning (Invalid_literal port_number)],
              executed = None, ended = Exit 1\<rparr> \<and>
         exit_status (ended (main env (Inr (pre @ (option, v) # post, arguments)))) \<noteq> 0"
proof -
  have "tunnel_option env v = Inl (Invalid_literal port_number)"
    using assms(2-5) by (simp add: tunnel_option_def)
  then have "loop_body env option v st = Raised (Invalid_literal port_number) st"
    by (simp add: loop_body_tunnel [OF assms(1)])
  from parse_arguments_stops [OF assms(6) this]
  have stop: "parse_arguments env (Inr (pre @ (option, v) # post, arguments))
                = Raised (Invalid_literal port_number) st" .
  from main_Raised [OF stop] stop show ?thesis
    by simp
qed

theorem malformed_tunnel_port_witness:
  "main (example_env None True None)
        (Inr ([(''-b'', []), (''-t'', ''alice@backup-host:ssh''), (''-n'', [])], [''/backup'']))
     = \<lparr>displayed = [Warning (Invalid_literal ''ssh'')], executed = None, ended = Exit 1\<rparr>"
proof -
  have a: "''-t'' \<in> {''-t'', ''--tunnel''}"
    by simp
  have b: "str_rpartition ''alice@backup-host:ssh'' (CHR ''@'') = (''alice'', ''@'', ''backup-host:ssh'')"
    by (simp add: str_rpartition_def)
  have c: "str_partition ''backup-host:ssh'' (CHR '':'') = (''backup-host'', '':'', ''ssh'')"
    by (simp add: str_partition_def)
  have d: "''ssh'' \<noteq> []"
    by simp
  have e: "py_int ''ssh'' = None"
    by (simp add: py_int_def int_space_def int_literal_def isdigit_def)
  have f: "for_options (example_env None True None) [(''-b'', [])] initial
             = Next \<lparr>program_opts = enable_explicit_action Map.empty ''backup_enabled'',
                     dest_opts = \<lparr>ssh_tunnel = None, expression = None\<rparr>, shown = []\<rparr>"
    by (simp add: loop_body_def initial_def)
  show ?thesis
    using malformed_tunnel_port [OF a b c d e f, where post = "[(''-n'', [])]" and arguments = "[''/backup'']"]
    by simp
qed


subsection \<open>Failures of the backup program\<close>

lemma main_failure:
  assumes "parse_arguments env parsed = Next st"
      and "execute env ((program_opts st)(''source_context'' \<mapsto> VContext)) = Some e"
  shows "main env parsed =
           \<lparr>displayed = shown st @ fst (handle_failure env e),
            executed = Some ((program_opts st)(''source_context'' \<mapsto> VContext)),
            ended = snd (handle_failure env e)\<rparr>"
  using assms by (simp add: main_def Let_def split: prod.splits)

lemma parse_example:
  "parse_arguments (example_env failure terminal None) (Inr ([], [''/backup''])) =
     Next \<lparr>program_opts =
             [''destination'' \<mapsto> VDest \<lparr>ssh_tunnel = None, expression = Some ''/backup''\<rparr>],
           dest_opts = \<lparr>ssh_tunnel = None, expression = Some ''/backup''\<rparr>,
           shown = []\<rparr>"
  by (simp add: parse_arguments_def positional_arguments_def initial_def example_env_def)

text \<open>
  Claim C3. When the command line is parsed successfully and the backup program raises
  \<open>MissingBackupDiskError\<close>: without a terminal, \<open>main\<close> logs the message at info level
  and exits with status 0; with a terminal, it logs the message at error level (without
  traceback) and exits with status 1.
\<close>

theorem missing_backup_disk_outcome:
  assumes "parse_arguments env parsed = Next st"
      and "execute env ((program_opts st)(''source_context'' \<mapsto> VContext))
             = Some (MissingBackupDiskError m)"
  shows "main env parsed =
           (if connected_to_terminal env
            then \<lparr>displayed = shown st @ [Log ERROR False (''Aborting due to error: '' @ m)],
                  executed = Some ((program_opts st)(''source_context'' \<mapsto> VContext)),
                  ended = Exit 1\<rparr>
            else \<lparr>displayed = shown st @ [Log INFO False (''Skipping backup: '' @ m)],
                  executed = Some ((program_opts st)(''source_context'' \<mapsto> VContext)),
                  ended = Exit 0\<rparr>)"
  by (simp add: main_failure [OF assms] handle_failure_def)

theorem missing_backup_disk_outcome_witness:
  "main (example_env (Some (MissingBackupDiskError ''no disk'')) True None)
        (Inr ([], [''/backup'']))
     = \<lparr>displayed = [Log ERROR False ''Aborting due to error: no disk''],
        executed = Some [''destination'' \<mapsto> VDest \<lparr>ssh_tunnel = None, expression = Some ''/backup''\<rparr>,
                         ''source_context'' \<mapsto> VContext],
        ended = Exit 1\<rparr> \<and>
   main (example_env (Some (MissingBackupDiskError ''no disk'')) False None)
        (Inr ([], [''/backup'']))
     = \<lparr>displayed = [Log INFO False ''Skipping backup: no disk''],
        executed = Some [''destination'' \<mapsto> VDest \<lparr>ssh_tunnel = None, expression = Some ''/backup''\<rparr>,
                         ''source_context'' \<mapsto> VContext],
        ended = Exit 0\<rparr>"
proof -
  have t: "execute (example_env (Some (MissingBackupDiskError ''no disk'')) True None) opts
             = Some (MissingBackupDiskError ''no disk'')" for opts
    by (simp add: example_env_def)
  have f: "execute (example_env (Some (MissingBackupDiskError ''no disk'')) False None) opts
             = Some (MissingBackupDiskError ''no disk'')" for opts
    by (simp add: example_env_def)
  show ?thesis
    using missing_backup_disk_outcome [OF parse_example t]
          missing_backup_disk_outcome [OF parse_example f]
    by (simp add: example_env_def)
qed

text \<open>
  Claim C6, as stated, fails: \<open>MissingBackupDiskError\<close> is a recognized domain error, and
  without a terminal it is logged at info level and the exit status is 0.
\<close>

theorem domain_error_counterexample:
  "isinstance_RsyncSystemBackupError (MissingBackupDiskError ''no disk'') \<and>
   execute (example_env (Some (MissingBackupDiskError ''no disk'')) False None)
     [''destination'' \<mapsto> VDest \<lparr>ssh_tunnel = None, expression = Some ''/backup''\<rparr>,
      ''source_context'' \<mapsto> VContext]
     = Some (MissingBackupDiskError ''no disk'') \<and>
   displayed (main (example_env (Some (MissingBackupDiskError ''no disk'')) False None)
                   (Inr ([], [''/backup''])))
     = [Log INFO False ''Skipping backup: no disk''] \<and>
   ended (main (example_env (Some (MissingBackupDiskError ''no disk'')) False None)
               (Inr ([], [''/backup''])))
     = Exit 0"
  by (simp add: main_def parse_example) (simp add: example_env_def handle_failure_def)

text \<open>
  Claim C6, amended. A failure of the backup program that is a recognized domain error,
  other than a missing backup disk while no terminal is attached, is logged at error level
  with its message and without traceback, and the exit status is 1. A failure that is not a
  recognized domain error is logged at error level with the traceback, and the exit status
  is 1.
\<close>

theorem failure_triage:
  assumes "parse_arguments env parsed = Next st"
      and "execute env ((program_opts st)(''source_context'' \<mapsto> VContext)) = Some e"
  shows "(isinstance_RsyncSystemBackupError e \<and>
          \<not> (isinstance_MissingBackupDiskError e \<and> \<not> connected_to_terminal env) \<longrightarrow>
            main env parsed =
              \<lparr>displayed = shown st @ [Log ERROR False (''Aborting due to error: '' @ str_exc e)],
               executed = Some ((program_opts st)(''source_context'' \<mapsto> VContext)),
               ended = Exit 1\<rparr>) \<and>
         (\<not> isinstance_RsyncSystemBackupError e \<longrightarrow>
            main env parsed =
              \<lparr>displayed = shown st @ [Log ERROR True ''Aborting due to unhandled exception!''],
               executed = Some ((program_opts st)(''source_context'' \<mapsto> VContext)),
               ended = Exit 1\<rparr>)"
  by (simp add: main_failure [OF assms] handle_failure_def)

theorem failure_triage_witness:
  "main (example_env (Some (RsyncSystemBackupError ''unreachable'')) False None)
        (Inr ([], [''/backup'']))
     = \<lparr>displayed = [Log ERROR False ''Aborting due to error: unreachable''],
        executed = Some [''destination'' \<mapsto> VDest \<lparr>ssh_tunnel = None, expression = Some ''/backup''\<rparr>,
                         ''source_context'' \<mapsto> VContext],
        ended = Exit 1\<rparr> \<and>
   main (example_env (Some (Other_exception ''division by zero'')) False None)
        (Inr ([], [''/backup'']))
     = \<lparr>displayed = [Log ERROR True ''Aborting due to unhandled exception!''],
        executed = Some [''destination'' \<mapsto> VDest \<lparr>ssh_tunnel = None, expression = Some ''/backup''\<rparr>,
                         ''source_context'' \<mapsto> VContext],
        ended = Exit 1\<rparr>"
proof -
  have d: "execute (example_env (Some (RsyncSystemBackupError ''unreachable'')) False None) opts
             = Some (RsyncSystemBackupError ''unreachable'')" for opts
    by (simp add: example_env_def)
  have u: "execute (example_env (Some (Other_exception ''division by zero'')) False None) opts
             = Some (Other_exception ''division by zero'')" for opts
    by (simp add: example_env_def)
  show ?thesis
    using failure_triage [OF parse_example d] failure_triage [OF parse_example u]
    by simp
qed


subsection \<open>What the loop over the options leaves unchanged\<close>

text \<open>
  The branches of the help flag and of the flag for the I/O scheduling class, then the keys
  that no branch writes, and the lifting of such facts from one step to the whole loop.
\<close>

lemma loop_body_help:
  "option \<in> {''-h'', ''--help''} \<Longrightarrow>
   loop_body env option v st =
     (case usage env doc of
        Some m \<Rightarrow> Raised (Usage_error m) st
      | None \<Rightarrow> Returned (st\<lparr>shown := shown st @ [Usage]\<rparr>))"
  by (elim insertE emptyE) (simp_all add: loop_body_def)

lemma loop_body_ionice:
  "option \<in> {''-i'', ''--ionice''} \<Longrightarrow>
   loop_body env option v st =
     (if validate_ionice_class env (strip (lower v))
      then Next (st\<lparr>program_opts := (program_opts st)(''ionice'' \<mapsto> VStr (strip (lower v)))\<rparr>)
      else Raised (Invalid_ionice_class (strip (lower v))) st)"
  by (elim insertE emptyE) (simp_all add: loop_body_def)

lemma loop_body_Returned:
  "loop_body env option v st = Returned st' \<Longrightarrow> option \<in> {''-h'', ''--help''}"
  by (simp add: loop_body_def Let_def split: sum.splits option.splits val.splits if_splits)

lemma loop_body_expression:
  "expression (dest_opts (state_of (loop_body env option v st))) = expression (dest_opts st)"
  by (simp add: loop_body_def Let_def split: sum.splits option.splits val.splits)

lemma loop_body_source:
  "program_opts (state_of (loop_body env option v st)) ''source'' = program_opts st ''source''"
  by (simp add: loop_body_def enable_explicit_action_apply setdefault_def Let_def actions_def
           split: sum.splits option.splits val.splits)

lemma loop_body_destination:
  "program_opts (state_of (loop_body env option v st)) ''destination''
     = program_opts st ''destination''"
  by (simp add: loop_body_def enable_explicit_action_apply setdefault_def Let_def actions_def
           split: sum.splits option.splits val.splits)

lemma loop_body_action_keys:
  assumes "option \<notin> {''-b'', ''--backup'', ''-s'', ''--snapshot'', ''-r'', ''--rotate''}"
  shows "program_opts (state_of (loop_body env option v st)) ''backup_enabled''
           = program_opts st ''backup_enabled'' \<and>
         program_opts (state_of (loop_body env option v st)) ''snapshot_enabled''
           = program_opts st ''snapshot_enabled'' \<and>
         program_opts (state_of (loop_body env option v st)) ''rotate_enabled''
           = program_opts st ''rotate_enabled''"
  using assms
  by (simp add: loop_body_def setdefault_def Let_def
           split: sum.splits option.splits val.splits)

lemma for_options_keeps:
  assumes "\<And>option v s. (option, v) \<in> set options \<Longrightarrow>
             f (state_of (loop_body env option v s)) = f s"
  shows "f (state_of (for_options env options st)) = f st"
  using assms
proof (induction options arbitrary: st)
  case Nil
  then show ?case by simp
next
  case (Cons x options)
  obtain option v where x: "x = (option, v)"
    by (cases x)
  have step: "f (state_of (loop_body env option v st)) = f st"
    using Cons.prems x by simp
  have rest: "f (state_of (for_options env options s)) = f s" for s
    using Cons.IH Cons.prems by simp
  show ?case
    using step rest x by (cases "loop_body env option v st") simp_all
qed

lemma for_options_Returned:
  "for_options env options st = Returned st' \<Longrightarrow>
   \<exists>x \<in> set options. fst x \<in> {''-h'', ''--help''}"
proof (induction options arbitrary: st)
  case Nil
  then show ?case by simp
next
  case (Cons x options)
  obtain option v where x: "x = (option, v)"
    by (cases x)
  show ?case
  proof (cases "loop_body env option v st")
    case (Next s)
    with Cons x show ?thesis by auto
  next
    case (Raised e s)
    with Cons.prems x show ?thesis by simp
  next
    case (Returned s)
    from loop_body_Returned [OF this] x show ?thesis by simp
  qed
qed


subsection \<open>The action flags in the loop over the options\<close>

text \<open>
  The three branches that call \<open>enable_explicit_action\<close>, and what a run of the loop that
  reaches its end has done to the three action keys: once they hold booleans, and from a
  dictionary that has none of them.
\<close>

lemma loop_body_backup:
  "option \<in> {''-b'', ''--backup''} \<Longrightarrow>
   loop_body env option v st =
     Next (st\<lparr>program_opts := enable_explicit_action (program_opts st) ''backup_enabled''\<rparr>)"
  by (elim insertE emptyE) (simp_all add: loop_body_def)

lemma loop_body_snapshot:
  "option \<in> {''-s'', ''--snapshot''} \<Longrightarrow>
   loop_body env option v st =
     Next (st\<lparr>program_opts := enable_explicit_action (program_opts st) ''snapshot_enabled''\<rparr>)"
  by (elim insertE emptyE) (simp_all add: loop_body_def)

lemma loop_body_rotate:
  "option \<in> {''-r'', ''--rotate''} \<Longrightarrow>
   loop_body env option v st =
     Next (st\<lparr>program_opts := enable_explicit_action (program_opts st) ''rotate_enabled''\<rparr>)"
  by (elim insertE emptyE) (simp_all add: loop_body_def)

lemma for_options_Cons_Next:
  "for_options env ((option, v) # rest) st = Next st' \<Longrightarrow>
   \<exists>s. loop_body env option v st = Next s \<and> for_options env rest s = Next st'"
  by (cases "loop_body env option v st") simp_all

lemma for_options_actions_defined:
  assumes "for_options env options st = Next st'"
      and "program_opts st ''backup_enabled'' = Some (VBool b)"
      and "program_opts st ''snapshot_enabled'' = Some (VBool s)"
      and "program_opts st ''rotate_enabled'' = Some (VBool r)"
  shows "program_opts st' ''backup_enabled''
           = Some (VBool (b \<or> (\<exists>x \<in> set options. fst x \<in> {''-b'', ''--backup''}))) \<and>
         program_opts st' ''snapshot_enabled''
           = Some (VBool (s \<or> (\<exists>x \<in> set options. fst x \<in> {''-s'', ''--snapshot''}))) \<and>
         program_opts st' ''rotate_enabled''
           = Some (VBool (r \<or> (\<exists>x \<in> set options. fst x \<in> {''-r'', ''--rotate''})))"
  using assms
proof (induction options arbitrary: st b s r)
  case Nil
  then show ?case by simp
next
  case (Cons x rest)
  obtain option v where x: "x = (option, v)"
    by (cases x)
  from Cons.prems(1) have "for_options env ((option, v) # rest) st = Next st'"
    by (simp only: x)
  from for_options_Cons_Next [OF this] obtain s1 where
    step: "loop_body env option v st = Next s1" and rest: "for_options env rest s1 = Next st'"
    by blast
  consider (backup) "option \<in> {''-b'', ''--backup''}"
    | (snapshot) "option \<in> {''-s'', ''--snapshot''}"
    | (rotate) "option \<in> {''-r'', ''--rotate''}"
    | (other) "option \<notin> {''-b'', ''--backup'', ''-s'', ''--snapshot'', ''-r'', ''--rotate''}"
    by blast
  then show ?case
  proof cases
    case backup
    from step have s1: "s1 = st\<lparr>program_opts := enable_explicit_action (program_opts st) ''backup_enabled''\<rparr>"
      by (simp add: loop_body_backup [OF backup])
    have k: "program_opts s1 ''backup_enabled'' = Some (VBool True)"
            "program_opts s1 ''snapshot_enabled'' = Some (VBool s)"
            "program_opts s1 ''rotate_enabled'' = Some (VBool r)"
      using Cons.prems(2-4) by (simp_all add: s1 enable_explicit_action_apply actions_def)
    have o: "option \<notin> {''-s'', ''--snapshot''}" "option \<notin> {''-r'', ''--rotate''}"
      using backup by auto
    from Cons.IH [OF rest k] backup o show ?thesis
      by (simp add: x)
  next
    case snapshot
    from step have s1: "s1 = st\<lparr>program_opts := enable_explicit_action (program_opts st) ''snapshot_enabled''\<rparr>"
      by (simp add: loop_body_snapshot [OF snapshot])
    have k: "program_opts s1 ''backup_enabled'' = Some (VBool b)"
            "program_opts s1 ''snapshot_enabled'' = Some (VBool True)"
            "program_opts s1 ''rotate_enabled'' = Some (VBool r)"
      using Cons.prems(2-4) by (simp_all add: s1 enable_explicit_action_apply actions_def)
    have o: "option \<notin> {''-b'', ''--backup''}" "option \<notin> {''-r'', ''--rotate''}"
      using snapshot by auto
    from Cons.IH [OF rest k] snapshot o show ?thesis
      by (simp add: x)
  next
    case rotate
    from step have s1: "s1 = st\<lparr>program_opts := enable_explicit_action (program_opts st) ''rotate_enabled''\<rparr>"
      by (simp add: loop_body_rotate [OF rotate])
    have k: "program_opts s1 ''backup_enabled'' = Some (VBool b)"
            "program_opts s1 ''snapshot_enabled'' = Some (VBool s)"
            "program_opts s1 ''rotate_enabled'' = Some (VBool True)"
      using Cons.prems(2-4) by (simp_all add: s1 enable_explicit_action_apply actions_def)
    have o: "option \<notin> {''-b'', ''--backup''}" "option \<notin> {''-s'', ''--snapshot''}"
      using rotate by auto
    from Cons.IH [OF rest k] rotate o show ?thesis
      by (simp add: x)
  next
    case other
    have k: "program_opts s1 ''backup_enabled'' = Some (VBool b)"
            "program_opts s1 ''snapshot_enabled'' = Some (VBool s)"
            "program_opts s1 ''rotate_enabled'' = Some (VBool r)"
      using loop_body_action_keys [OF other, of env v st] step Cons.prems(2-4) by simp_all
    from Cons.IH [OF rest k] other show ?thesis
      by (simp add: x)
  qed
qed

lemma for_options_actions:
  assumes "for_options env options st = Next st'"
      and "program_opts st ''backup_enabled'' = None"
      and "program_opts st ''snapshot_enabled'' = None"
      and "program_opts st ''rotate_enabled'' = None"
  shows "if \<exists>x \<in> set options.
              fst x \<in> {''-b'', ''--backup'', ''-s'', ''--snapshot'', ''-r'', ''--rotate''}
         then program_opts st' ''backup_enabled''
                = Some (VBool (\<exists>x \<in> set options. fst x \<in> {''-b'', ''--backup''})) \<and>
              program_opts st' ''snapshot_enabled''
                = Some (VBool (\<exists>x \<in> set options. fst x \<in> {''-s'', ''--snapshot''})) \<and>
              program_opts st' ''rotate_enabled''
                = Some (VBool (\<exists>x \<in> set options. fst x \<in> {''-r'', ''--rotate''}))
         else program_opts st' ''backup_enabled'' = None \<and>
              program_opts st' ''snapshot_enabled'' = None \<and>
              program_opts st' ''rotate_enabled'' = None"
  using assms
proof (induction options arbitrary: st)
  case Nil
  then show ?case by simp
next
  case (Cons x rest)
  obtain option v where x: "x = (option, v)"
    by (cases x)
  from Cons.prems(1) have "for_options env ((option, v) # rest) st = Next st'"
    by (simp only: x)
  from for_options_Cons_Next [OF this] obtain s1 where
    step: "loop_body env option v st = Next s1" and rest: "for_options env rest s1 = Next st'"
    by blast
  consider (backup) "option \<in> {''-b'', ''--backup''}"
    | (snapshot) "option \<in> {''-s'', ''--snapshot''}"
    | (rotate) "option \<in> {''-r'', ''--rotate''}"
    | (other) "option \<notin> {''-b'', ''--backup'', ''-s'', ''--snapshot'', ''-r'', ''--rotate''}"
    by blast
  then show ?case
  proof cases
    case backup
    from step have s1: "s1 = st\<lparr>program_opts := enable_explicit_action (program_opts st) ''backup_enabled''\<rparr>"
      by (simp add: loop_body_backup [OF backup])
    have k: "program_opts s1 ''backup_enabled'' = Some (VBool True)"
            "program_opts s1 ''snapshot_enabled'' = Some (VBool False)"
            "program_opts s1 ''rotate_enabled'' = Some (VBool False)"
      using Cons.prems(2-4) by (simp_all add: s1 enable_explicit_action_apply actions_def)
    have o: "option \<notin> {''-s'', ''--snapshot''}" "option \<notin> {''-r'', ''--rotate''}"
      using backup by auto
    from for_options_actions_defined [OF rest k] backup o show ?thesis
      by (simp add: x)
  next
    case snapshot
    from step have s1: "s1 = st\<lparr>program_opts := enable_explicit_action (program_opts st) ''snapshot_enabled''\<rparr>"
      by (simp add: loop_body_snapshot [OF snapshot])
    have k: "program_opts s1 ''backup_enabled'' = Some (VBool False)"
            "program_opts s1 ''snapshot_enabled'' = Some (VBool True)"
            "program_opts s1 ''rotate_enabled'' = Some (VBool False)"
      using Cons.prems(2-4) by (simp_all add: s1 enable_explicit_action_apply actions_def)
    have o: "option \<notin> {''-b'', ''--backup''}" "option \<notin> {''-r'', ''--rotate''}"
      using snapshot by auto
    from for_options_actions_defined [OF rest k] snapshot o show ?thesis
      by (simp add: x)
  next
    case rotate
    from step have s1: "s1 = st\<lparr>program_opts := enable_explicit_action (program_opts st) ''rotate_enabled''\<rparr>"
      by (simp add: loop_body_rotate [OF rotate])
    have k: "program_opts s1 ''backup_enabled'' = Some (VBool False)"
            "program_opts s1 ''snapshot_enabled'' = Some (VBool False)"
            "program_opts s1 ''rotate_enabled'' = Some (VBool True)"
      using Cons.prems(2-4) by (simp_all add: s1 enable_explicit_action_apply actions_def)
    have o: "option \<notin> {''-b'', ''--backup''}" "option \<notin> {''-s'', ''--snapshot''}"
      using rotate by auto
    from for_options_actions_defined [OF rest k] rotate o show ?thesis
      by (simp add: x)
  next
    case other
    have k: "program_opts s1 ''backup_enabled'' = None"
            "program_opts s1 ''snapshot_enabled'' = None"
            "program_opts s1 ''rotate_enabled'' = None"
      using loop_body_action_keys [OF other, of env v st] step Cons.prems(2-4) by simp_all
    from Cons.IH [OF rest k] other show ?thesis
      by (simp add: x)
  qed
qed

lemma for_options_action_flags_only:
  assumes "\<forall>x \<in> set options.
             fst x \<in> {''-b'', ''--backup'', ''-s'', ''--snapshot'', ''-r'', ''--rotate''}"
  shows "\<exists>st'. for_options env options st = Next st'"
  using assms
proof (induction options arbitrary: st)
  case Nil
  then show ?case by simp
next
  case (Cons x rest)
  obtain option v where x: "x = (option, v)"
    by (cases x)
  from Cons.prems x consider (backup) "option \<in> {''-b'', ''--backup''}"
    | (snapshot) "option \<in> {''-s'', ''--snapshot''}"
    | (rotate) "option \<in> {''-r'', ''--rotate''}"
    by auto
  then obtain s1 where "loop_body env option v st = Next s1"
    by cases (simp_all add: loop_body_backup loop_body_snapshot loop_body_rotate)
  moreover from Cons obtain st' where "for_options env rest s1 = Next st'"
    by auto
  ultimately show ?case
    by (simp add: x)
qed

lemma positional_arguments_keys:
  "k \<noteq> ''source'' \<Longrightarrow> k \<noteq> ''destination'' \<Longrightarrow>
   program_opts (state_of (positional_arguments env arguments st)) k = program_opts st k"
  by (simp add: positional_arguments_def Let_def split: sum.splits option.splits)

lemma main_executed:
  assumes "executed (main env (Inr (options, arguments))) = Some opts"
  shows "\<exists>st st'. for_options env options initial = Next st \<and>
                   positional_arguments env arguments st = Next st' \<and>
                   opts = (program_opts st')(''source_context'' \<mapsto> VContext)"
proof (cases "for_options env options initial")
  case (Next st)
  show ?thesis
  proof (cases "positional_arguments env arguments st")
    case (Next st')
    with \<open>for_options env options initial = Next st\<close> assms show ?thesis
      by (auto simp add: main_def parse_arguments_def Let_def split: option.splits prod.splits)
  next
    case (Raised e st')
    with \<open>for_options env options initial = Next st\<close> assms show ?thesis
      by (simp add: main_def parse_arguments_def)
  next
    case (Returned st')
    with \<open>for_options env options initial = Next st\<close> assms show ?thesis
      by (simp add: main_def parse_arguments_def)
  qed
next
  case (Raised e st)
  with assms show ?thesis
    by (simp add: main_def parse_arguments_def)
next
  case (Returned st)
  with assms show ?thesis
    by (simp add: main_def parse_arguments_def)
qed

text \<open>
  Claim C1. \<open>main\<close> starts from the empty dictionary. A command line whose options are all
  action flags (\<open>-b\<close>, \<open>--backup\<close>, \<open>-s\<close>, \<open>--snapshot\<close>, \<open>-r\<close>, \<open>--rotate\<close>) is
  processed to the end of the loop. Whenever the loop over the options reaches its end:
  if at least one action flag is among the options, each of the three action keys is
  present, true when a flag of that action is among the options and false otherwise; if
  none is, none of the three keys is present. The same holds of the options the backup
  program is executed with.
\<close>

theorem action_flags_resolved:
  "((\<forall>x \<in> set options.
       fst x \<in> {''-b'', ''--backup'', ''-s'', ''--snapshot'', ''-r'', ''--rotate''}) \<longrightarrow>
      (\<exists>st. for_options env options initial = Next st)) \<and>
   (\<forall>st. for_options env options initial = Next st \<longrightarrow>
      (if \<exists>x \<in> set options.
            fst x \<in> {''-b'', ''--backup'', ''-s'', ''--snapshot'', ''-r'', ''--rotate''}
       then program_opts st ''backup_enabled''
              = Some (VBool (\<exists>x \<in> set options. fst x \<in> {''-b'', ''--backup''})) \<and>
            program_opts st ''snapshot_enabled''
              = Some (VBool (\<exists>x \<in> set options. fst x \<in> {''-s'', ''--snapshot''})) \<and>
            program_opts st ''rotate_enabled''
              = Some (VBool (\<exists>x \<in> set options. fst x \<in> {''-r'', ''--rotate''}))
       else program_opts st ''backup_enabled'' = None \<and>
            program_opts st ''snapshot_enabled'' = None \<and>
            program_opts st ''rotate_enabled'' = None)) \<and>
   (\<forall>opts. executed (main env (Inr (options, arguments))) = Some opts \<longrightarrow>
      (if \<exists>x \<in> set options.
            fst x \<in> {''-b'', ''--backup'', ''-s'', ''--snapshot'', ''-r'', ''--rotate''}
       then opts ''backup_enabled''
              = Some (VBool (\<exists>x \<in> set options. fst x \<in> {''-b'', ''--backup''})) \<and>
            opts ''snapshot_enabled''
              = Some (VBool (\<exists>x \<in> set options. fst x \<in> {''-s'', ''--snapshot''})) \<and>
            opts ''rotate_enabled''
              = Some (VBool (\<exists>x \<in> set options. fst x \<in> {''-r'', ''--rotate''}))
       else opts ''backup_enabled'' = None \<and>
            opts ''snapshot_enabled'' = None \<and>
            opts ''rotate_enabled'' = None))"
proof (intro conjI allI impI)
  assume "\<forall>x \<in> set options.
            fst x \<in> {''-b'', ''--backup'', ''-s'', ''--snapshot'', ''-r'', ''--rotate''}"
  then show "\<exists>st. for_options env options initial = Next st"
    by (rule for_options_action_flags_only)
next
  fix st
  assume "for_options env options initial = Next st"
  then show "if \<exists>x \<in> set options.
                  fst x \<in> {''-b'', ''--backup'', ''-s'', ''--snapshot'', ''-r'', ''--rotate''}
             then program_opts st ''backup_enabled''
                    = Some (VBool (\<exists>x \<in> set options. fst x \<in> {''-b'', ''--backup''})) \<and>
                  program_opts st ''snapshot_enabled''
                    = Some (VBool (\<exists>x \<in> set options. fst x \<in> {''-s'', ''--snapshot''})) \<and>
                  program_opts st ''rotate_enabled''
                    = Some (VBool (\<exists>x \<in> set options. fst x \<in> {''-r'', ''--rotate''}))
             else program_opts st ''backup_enabled'' = None \<and>
                  program_opts st ''snapshot_enabled'' = None \<and>
                  program_opts st ''rotate_enabled'' = None"
    by (rule for_options_actions) (simp_all add: initial_def)
next
  fix opts
  assume "executed (main env (Inr (options, arguments))) = Some opts"
  from main_executed [OF this] obtain st st' where
    loop: "for_options env options initial = Next st" and
    pos: "positional_arguments env arguments st = Next st'" and
    opts: "opts = (program_opts st')(''source_context'' \<mapsto> VContext)"
    by blast
  have keep: "opts k = program_opts st k"
    if "k \<noteq> ''source''" "k \<noteq> ''destination''" "k \<noteq> ''source_context''" for k
    using positional_arguments_keys [OF that(1,2), of env arguments st] that(3)
    by (simp add: pos opts)
  have "opts ''backup_enabled'' = program_opts st ''backup_enabled''"
       "opts ''snapshot_enabled'' = program_opts st ''snapshot_enabled''"
       "opts ''rotate_enabled'' = program_opts st ''rotate_enabled''"
    by (simp_all add: keep)
  moreover
  have "program_opts initial ''backup_enabled'' = None"
       "program_opts initial ''snapshot_enabled'' = None"
       "program_opts initial ''rotate_enabled'' = None"
    by (simp_all add: initial_def)
  note for_options_actions [OF loop this]
  ultimately
  show "if \<exists>x \<in> set options.
              fst x \<in> {''-b'', ''--backup'', ''-s'', ''--snapshot'', ''-r'', ''--rotate''}
        then opts ''backup_enabled''
               = Some (VBool (\<exists>x \<in> set options. fst x \<in> {''-b'', ''--backup''})) \<and>
             opts ''snapshot_enabled''
               = Some (VBool (\<exists>x \<in> set options. fst x \<in> {''-s'', ''--snapshot''})) \<and>
             opts ''rotate_enabled''
               = Some (VBool (\<exists>x \<in> set options. fst x \<in> {''-r'', ''--rotate''}))
        else opts ''backup_enabled'' = None \<and>
             opts ''snapshot_enabled'' = None \<and>
             opts ''rotate_enabled'' = None"
    by simp
qed

theorem action_flags_resolved_witness:
  "for_options (example_env None True None)
     [(''--snapshot'', []), (''-n'', []), (''-r'', []), (''-s'', [])] initial
     = Next \<lparr>program_opts = [''snapshot_enabled'' \<mapsto> VBool True, ''backup_enabled'' \<mapsto> VBool False,
                             ''rotate_enabled'' \<mapsto> VBool True, ''dry_run'' \<mapsto> VBool True],
             dest_opts = \<lparr>ssh_tunnel = None, expression = None\<rparr>,
             shown = [Log INFO False ''Performing a dry run (because of -n option) ..'']\<rparr> \<and>
   program_opts (state_of (for_options (example_env None True None)
     [(''--snapshot'', []), (''-n'', []), (''-r'', []), (''-s'', [])] initial)) ''backup_enabled''
     = Some (VBool False) \<and>
   program_opts (state_of (for_options (example_env None True None)
     [(''--snapshot'', []), (''-n'', []), (''-r'', []), (''-s'', [])] initial)) ''snapshot_enabled''
     = Some (VBool True) \<and>
   program_opts (state_of (for_options (example_env None True None)
     [(''--snapshot'', []), (''-n'', []), (''-r'', []), (''-s'', [])] initial)) ''rotate_enabled''
     = Some (VBool True) \<and>
   executed (main (example_env None True None) (Inr ([(''-b'', [])], [''/backup'']))) =
     Some [''backup_enabled'' \<mapsto> VBool True, ''snapshot_enabled'' \<mapsto> VBool False,
           ''rotate_enabled'' \<mapsto> VBool False,
           ''destination'' \<mapsto> VDest \<lparr>ssh_tunnel = None, expression = Some ''/backup''\<rparr>,
           ''source_context'' \<mapsto> VContext] \<and>
   program_opts (state_of (for_options (example_env None True None) [(''-f'', [])] initial))
     ''rotate_enabled'' = None"
proof -
  let ?env = "example_env None True None :: destination_options env"
  let ?s = "\<lparr>program_opts = [''snapshot_enabled'' \<mapsto> VBool True, ''backup_enabled'' \<mapsto> VBool False,
                             ''rotate_enabled'' \<mapsto> VBool True, ''dry_run'' \<mapsto> VBool True],
             dest_opts = \<lparr>ssh_tunnel = None, expression = None\<rparr>,
             shown = [Log INFO False ''Performing a dry run (because of -n option) ..'']\<rparr>
           :: destination_options state"
  have a: "for_options ?env [(''--snapshot'', []), (''-n'', []), (''-r'', []), (''-s'', [])] initial
             = Next ?s"
    by (simp add: loop_body_def initial_def enable_explicit_action_def actions_def setdefault_def)
       (auto simp add: fun_eq_iff)
  have b: "executed (main ?env (Inr ([(''-b'', [])], [''/backup'']))) =
             Some [''backup_enabled'' \<mapsto> VBool True, ''snapshot_enabled'' \<mapsto> VBool False,
                   ''rotate_enabled'' \<mapsto> VBool False,
                   ''destination'' \<mapsto> VDest \<lparr>ssh_tunnel = None, expression = Some ''/backup''\<rparr>,
                   ''source_context'' \<mapsto> VContext]"
    by (simp add: main_def parse_arguments_def positional_arguments_def loop_body_def initial_def
                  enable_explicit_action_def actions_def setdefault_def example_env_def)
  have c: "for_options ?env [(''-f'', [])] initial
             = Next \<lparr>program_opts = [''force'' \<mapsto> VBool True],
                     dest_opts = \<lparr>ssh_tunnel = None, expression = None\<rparr>, shown = []\<rparr>"
    by (simp add: loop_body_def initial_def)
  have "program_opts ?s ''backup_enabled'' = Some (VBool False) \<and>
        program_opts ?s ''snapshot_enabled'' = Some (VBool True) \<and>
        program_opts ?s ''rotate_enabled'' = Some (VBool True)"
    using action_flags_resolved
            [of "[(''--snapshot'', []), (''-n'', []), (''-r'', []), (''-s'', [])]" ?env "[]"] a
    by simp
  moreover
  have "program_opts \<lparr>program_opts = [''force'' \<mapsto> (VBool True :: destination_options val)],
                      dest_opts = \<lparr>ssh_tunnel = None, expression = None\<rparr>, shown = []\<rparr>
          ''rotate_enabled'' = None"
    using action_flags_resolved [of "[(''-f'', [])]" ?env "[]"] c
    by simp
  ultimately show ?thesis
    using a b c by simp
qed


subsection \<open>More than two positional arguments\<close>

text \<open>
  The digit the message of the arity error shows for three arguments, the fact that
  \<open>main\<close> executes nothing unless the first \<open>try\<close> block reaches its end, and the branch of
  \<open>len(arguments) > 2\<close>.
\<close>

lemma str_nat_3: "str_nat (Suc (Suc (Suc 0))) = ''3''"
proof -
  have "str_nat 3 = ''3''"
    by code_simp
  then show ?thesis
    by (simp add: numeral_3_eq_3)
qed

lemma main_not_parsed:
  assumes "\<And>st. parse_arguments env parsed \<noteq> Next st"
  shows "executed (main env parsed) = None"
proof (cases "parse_arguments env parsed")
  case (Next st)
  with assms show ?thesis by blast
next
  case (Raised e st)
  then show ?thesis by (simp add: main_def)
next
  case (Returned st)
  then show ?thesis by (simp add: main_def)
qed

lemma positional_too_many:
  "length arguments > 2 \<Longrightarrow>
   positional_arguments env arguments st =
     Raised (Exception (''Expected one or two positional arguments! (got ''
                         @ str_nat (length arguments) @ '')'')) st"
  by (simp add: positional_arguments_def)

lemma parse_arguments_too_many:
  assumes "length arguments > 2"
  shows "parse_arguments env (Inr (options, arguments)) \<noteq> Next st"
  using assms
  by (cases "for_options env options initial")
     (simp_all add: parse_arguments_def positional_too_many)

text \<open>
  Claim C4, as stated, fails: the help flag returns from \<open>main\<close> inside the loop, before
  the positional arguments are counted. With \<open>-h\<close> and three positional arguments, and no
  terminal attached, \<open>main\<close> shows the usage text and returns; no error is reported and the
  exit status is 0.
\<close>

theorem too_many_positionals_counterexample:
  "length [''/etc'', ''/home'', ''/backup''] = 3 \<and>
   main (example_env None False None) (Inr ([(''-h'', [])], [''/etc'', ''/home'', ''/backup'']))
     = \<lparr>displayed = [Usage], executed = None, ended = Return\<rparr> \<and>
   exit_status (ended (main (example_env None False None)
                            (Inr ([(''-h'', [])], [''/etc'', ''/home'', ''/backup''])))) = 0"
  by (simp add: main_def parse_arguments_def loop_body_help initial_def example_env_def doc_def)

text \<open>
  Claim C4, amended. With more than two positional arguments the backup program is never
  executed. When the loop over the options reaches its end (no flag raises and there is no
  help flag), \<open>main\<close> fails with the arity error: it is printed as a warning and the exit
  status is 1. When there is no help flag among the options, the exit status is 1 whatever
  the other flags are.
\<close>

theorem too_many_positionals:
  assumes "length arguments > 2"
  shows "executed (main env (Inr (options, arguments))) = None \<and>
         (\<forall>st. for_options env options initial = Next st \<longrightarrow>
            main env (Inr (options, arguments)) =
              \<lparr>displayed = shown st @
                  [Warning (Exception (''Expected one or two positional arguments! (got ''
                                        @ str_nat (length arguments) @ '')''))],
               executed = None, ended = Exit 1\<rparr>) \<and>
         ((\<forall>x \<in> set options. fst x \<notin> {''-h'', ''--help''}) \<longrightarrow>
            ended (main env (Inr (options, arguments))) = Exit 1)"
proof (intro conjI allI impI)
  show "executed (main env (Inr (options, arguments))) = None"
    using parse_arguments_too_many [OF assms] by (rule main_not_parsed)
next
  fix st
  assume "for_options env options initial = Next st"
  then show "main env (Inr (options, arguments)) =
              \<lparr>displayed = shown st @
                  [Warning (Exception (''Expected one or two positional arguments! (got ''
                                        @ str_nat (length arguments) @ '')''))],
               executed = None, ended = Exit 1\<rparr>"
    by (simp add: main_def parse_arguments_def positional_too_many [OF assms])
next
  assume no_help: "\<forall>x \<in> set options. fst x \<notin> {''-h'', ''--help''}"
  show "ended (main env (Inr (options, arguments))) = Exit 1"
  proof (cases "for_options env options initial")
    case (Next st)
    then show ?thesis
      by (simp add: main_def parse_arguments_def positional_too_many [OF assms])
  next
    case (Raised e st)
    then show ?thesis
      by (simp add: main_def parse_arguments_def)
  next
    case (Returned st)
    from for_options_Returned [OF this] no_help show ?thesis
      by blast
  qed
qed

theorem too_many_positionals_witness:
  "length [''/etc'', ''/home'', ''/backup''] > 2 \<and>
   for_options (example_env None True None) [(''-n'', [])] initial
     = Next \<lparr>program_opts = [''dry_run'' \<mapsto> VBool True],
             dest_opts = \<lparr>ssh_tunnel = None, expression = None\<rparr>,
             shown = [Log INFO False ''Performing a dry run (because of -n option) ..'']\<rparr> \<and>
   main (example_env None True None) (Inr ([(''-n'', [])], [''/etc'', ''/home'', ''/backup'']))
     = \<lparr>displayed = [Log INFO False ''Performing a dry run (because of -n option) ..'',
                     Warning (Exception ''Expected one or two positional arguments! (got 3)'')],
        executed = None, ended = Exit 1\<rparr>"
proof -
  have a: "length [''/etc'', ''/home'', ''/backup''] > 2"
    by simp
  have b: "for_options (example_env None True None) [(''-n'', [])] initial
             = Next \<lparr>program_opts = [''dry_run'' \<mapsto> VBool True],
                     dest_opts = \<lparr>ssh_tunnel = None, expression = None\<rparr>,
                     shown = [Log INFO False ''Performing a dry run (because of -n option) ..'']\<rparr>"
    by (simp add: loop_body_def initial_def)
  have "main (example_env None True None) (Inr ([(''-n'', [])], [''/etc'', ''/home'', ''/backup'']))
          = \<lparr>displayed = [Log INFO False ''Performing a dry run (because of -n option) ..''] @
               [Warning (Exception (''Expected one or two positional arguments! (got ''
                                     @ str_nat (length [''/etc'', ''/home'', ''/backup'']) @ '')''))],
             executed = None, ended = Exit 1\<rparr>"
    using b too_many_positionals [OF a, of "example_env None True None" "[(''-n'', [])]"]
    by (metis state.select_convs(3))
  then have "main (example_env None True None) (Inr ([(''-n'', [])], [''/etc'', ''/home'', ''/backup'']))
     = \<lparr>displayed = [Log INFO False ''Performing a dry run (because of -n option) ..'',
                     Warning (Exception ''Expected one or two positional arguments! (got 3)'')],
        executed = None, ended = Exit 1\<rparr>"
    by (simp add: str_nat_3)
  with a b show ?thesis
    by (intro conjI)
qed


subsection \<open>An invalid I/O scheduling class\<close>

text \<open>
  A command line with a flag \<open>-i\<close>, \<open>--ionice\<close> whose class \<open>validate_ionice_class\<close>
  rejects never gets through the loop, so that the first \<open>try\<close> block ends as the loop
  does; the loop stops at the flag at the latest; the loop never writes the destination;
  and flags other than the action flags leave the three action keys as they are.
\<close>

lemma for_options_invalid_ionice:
  assumes "(option, v) \<in> set options"
      and "option \<in> {''-i'', ''--ionice''}"
      and "\<not> validate_ionice_class env (strip (lower v))"
  shows "for_options env options st \<noteq> Next st'"
  using assms(1)
proof (induction options arbitrary: st)
  case Nil
  then show ?case by simp
next
  case (Cons x rest)
  obtain option' v' where x: "x = (option', v')"
    by (cases x)
  show ?case
  proof (cases "x = (option, v)")
    case True
    then show ?thesis
      by (simp add: loop_body_ionice [OF assms(2)] assms(3))
  next
    case False
    with Cons.prems have "(option, v) \<in> set rest"
      by simp
    from Cons.IH [OF this] show ?thesis
      by (cases "loop_body env option' v' st") (simp_all add: x)
  qed
qed

lemma parse_arguments_loop_stopped:
  assumes "\<And>st. for_options env options initial \<noteq> Next st"
  shows "parse_arguments env (Inr (options, arguments)) = for_options env options initial"
proof (cases "for_options env options initial")
  case (Next st)
  with assms show ?thesis by blast
next
  case (Raised e st)
  then show ?thesis by (simp add: parse_arguments_def)
next
  case (Returned st)
  then show ?thesis by (simp add: parse_arguments_def)
qed

lemma for_options_stop_state:
  assumes "\<And>s. loop_body env option v s = Raised (e s) s"
  shows "state_of (for_options env (pre @ (option, v) # post) st)
           = state_of (for_options env pre st)"
  by (cases "for_options env pre st") (simp_all add: for_options_append assms)

lemma for_options_initial_destination:
  fixes env :: "'d env"
  shows "program_opts (state_of (for_options env options initial)) ''destination'' = None \<and>
         expression (dest_opts (state_of (for_options env options initial))) = None"
proof -
  have "program_opts (state_of (for_options env options initial)) ''destination''
          = program_opts initial ''destination''"
    by (rule for_options_keeps [where f = "\<lambda>s. program_opts s ''destination''"])
       (rule loop_body_destination)
  moreover
  have "expression (dest_opts (state_of (for_options env options initial)))
          = expression (dest_opts (initial :: 'd state))"
    by (rule for_options_keeps [where f = "\<lambda>s. expression (dest_opts s)"])
       (rule loop_body_expression)
  ultimately show ?thesis
    by (simp add: initial_def)
qed

lemma for_options_no_action_flags:
  assumes "\<forall>x \<in> set options.
             fst x \<notin> {''-b'', ''--backup'', ''-s'', ''--snapshot'', ''-r'', ''--rotate''}"
  shows "program_opts (state_of (for_options env options st)) ''backup_enabled''
           = program_opts st ''backup_enabled'' \<and>
         program_opts (state_of (for_options env options st)) ''snapshot_enabled''
           = program_opts st ''snapshot_enabled'' \<and>
         program_opts (state_of (for_options env options st)) ''rotate_enabled''
           = program_opts st ''rotate_enabled''"
proof -
  have other: "option \<notin> {''-b'', ''--backup'', ''-s'', ''--snapshot'', ''-r'', ''--rotate''}"
    if "(option, v) \<in> set options" for option v
    using assms that by force
  have "program_opts (state_of (for_options env options st)) ''backup_enabled''
          = program_opts st ''backup_enabled''"
    by (rule for_options_keeps [where f = "\<lambda>s. program_opts s ''backup_enabled''"])
       (simp add: loop_body_action_keys [OF other])
  moreover
  have "program_opts (state_of (for_options env options st)) ''snapshot_enabled''
          = program_opts st ''snapshot_enabled''"
    by (rule for_options_keeps [where f = "\<lambda>s. program_opts s ''snapshot_enabled''"])
       (simp add: loop_body_action_keys [OF other])
  moreover
  have "program_opts (state_of (for_options env options st)) ''rotate_enabled''
          = program_opts st ''rotate_enabled''"
    by (rule for_options_keeps [where f = "\<lambda>s. program_opts s ''rotate_enabled''"])
       (simp add: loop_body_action_keys [OF other])
  ultimately show ?thesis
    by simp
qed

text \<open>
  Claim C7, as stated, fails: the options are processed in the order of the command line.
  With \<open>-b\<close> before \<open>-i bogus\<close>, the three action keys are set when the class is
  rejected. With \<open>-h\<close> before it (and no terminal attached), \<open>main\<close> shows the usage text
  and returns before the class is looked at, so parsing does not fail.
\<close>

theorem invalid_ionice_class_counterexample:
  "\<not> validate_ionice_class (example_env None True None) (strip (lower ''bogus'')) \<and>
   parse_arguments (example_env None True None)
       (Inr ([(''-b'', []), (''-i'', ''bogus'')], [''/backup'']))
     = Raised (Invalid_ionice_class ''bogus'')
         \<lparr>program_opts = [''backup_enabled'' \<mapsto> VBool True, ''snapshot_enabled'' \<mapsto> VBool False,
                          ''rotate_enabled'' \<mapsto> VBool False],
          dest_opts = \<lparr>ssh_tunnel = None, expression = None\<rparr>,
          shown = []\<rparr> \<and>
   main (example_env None False None) (Inr ([(''-h'', []), (''-i'', ''bogus'')], [''/backup'']))
     = \<lparr>displayed = [Usage], executed = None, ended = Return\<rparr>"
proof -
  have v: "strip (lower ''bogus'') = ''bogus''"
    by (simp add: strip_def lower_def lower_char_def isspace_def)
  have a: "\<not> validate_ionice_class (example_env None True None) (strip (lower ''bogus''))"
    by (simp add: v example_env_def)
  have b: "for_options (example_env None True None) [(''-b'', [])] initial
             = Next \<lparr>program_opts = [''backup_enabled'' \<mapsto> VBool True,
                                      ''snapshot_enabled'' \<mapsto> VBool False,
                                      ''rotate_enabled'' \<mapsto> VBool False],
                     dest_opts = \<lparr>ssh_tunnel = None, expression = None\<rparr>,
                     shown = []\<rparr>"
    by (simp add: loop_body_def initial_def enable_explicit_action_def actions_def setdefault_def)
  have c: "loop_body (example_env None True None) ''-i'' ''bogus'' s
             = Raised (Invalid_ionice_class ''bogus'') s" for s
    using a by (simp add: loop_body_ionice v)
  have "parse_arguments (example_env None True None)
          (Inr ([(''-b'', [])] @ (''-i'', ''bogus'') # [], [''/backup'']))
        = Raised (Invalid_ionice_class ''bogus'')
            \<lparr>program_opts = [''backup_enabled'' \<mapsto> VBool True, ''snapshot_enabled'' \<mapsto> VBool False,
                             ''rotate_enabled'' \<mapsto> VBool False],
             dest_opts = \<lparr>ssh_tunnel = None, expression = None\<rparr>,
             shown = []\<rparr>"
    by (rule parse_arguments_stops [OF b c])
  moreover
  have "main (example_env None False None) (Inr ([(''-h'', []), (''-i'', ''bogus'')], [''/backup'']))
          = \<lparr>displayed = [Usage], executed = None, ended = Return\<rparr>"
    by (simp add: main_def parse_arguments_def loop_body_help initial_def example_env_def doc_def)
  ultimately show ?thesis
    using a by simp
qed

text \<open>
  Claim C7, amended. For a command line that has a flag \<open>-i\<close>, \<open>--ionice\<close> with an invalid
  class: the backup program is never executed and the positional arguments are never
  looked at (the first \<open>try\<close> block ends as the loop over the options does), so no
  destination is built: neither the key \<open>destination\<close> nor the expression is set. When the
  loop gets through the flags before it, parsing fails at this flag: the state is the one
  these flags left, the error is printed as a warning and the exit status is 1. When no
  action flag stands before it, none of the three action keys is set.
\<close>

theorem invalid_ionice_class:
  assumes "option \<in> {''-i'', ''--ionice''}"
      and "\<not> validate_ionice_class env (strip (lower v))"
  shows "executed (main env (Inr (pre @ (option, v) # post, arguments))) = None \<and>
         parse_arguments env (Inr (pre @ (option, v) # post, arguments))
           = for_options env (pre @ (option, v) # post) initial \<and>
         program_opts (state_of (parse_arguments env (Inr (pre @ (option, v) # post, arguments))))
             ''destination'' = None \<and>
         expression (dest_opts
             (state_of (parse_arguments env (Inr (pre @ (option, v) # post, arguments))))) = None \<and>
         (\<forall>st. for_options env pre initial = Next st \<longrightarrow>
            parse_arguments env (Inr (pre @ (option, v) # post, arguments))
              = Raised (Invalid_ionice_class (strip (lower v))) st \<and>
            main env (Inr (pre @ (option, v) # post, arguments))
              = \<lparr>displayed = shown st @ [Warning (Invalid_ionice_class (strip (lower v)))],
                 executed = None, ended = Exit 1\<rparr>) \<and>
         ((\<forall>x \<in> set pre.
             fst x \<notin> {''-b'', ''--backup'', ''-s'', ''--snapshot'', ''-r'', ''--rotate''}) \<longrightarrow>
            program_opts (state_of (parse_arguments env (Inr (pre @ (option, v) # post, arguments))))
                ''backup_enabled'' = None \<and>
            program_opts (state_of (parse_arguments env (Inr (pre @ (option, v) # post, arguments))))
                ''snapshot_enabled'' = None \<and>
            program_opts (state_of (parse_arguments env (Inr (pre @ (option, v) # post, arguments))))
                ''rotate_enabled'' = None)"
proof -
  let ?options = "pre @ (option, v) # post"
  have raised: "loop_body env option v s = Raised (Invalid_ionice_class (strip (lower v))) s" for s
    by (simp add: loop_body_ionice [OF assms(1)] assms(2))
  have "(option, v) \<in> set ?options"
    by simp
  from for_options_invalid_ionice [OF this assms]
  have never: "for_options env ?options initial \<noteq> Next st" for st .
  then have loop: "parse_arguments env (Inr (?options, arguments)) = for_options env ?options initial"
    by (rule parse_arguments_loop_stopped)
  have "parse_arguments env (Inr (?options, arguments)) \<noteq> Next st" for st
    by (simp add: loop never)
  then have 1: "executed (main env (Inr (?options, arguments))) = None"
    by (rule main_not_parsed)
  have 3: "program_opts (state_of (parse_arguments env (Inr (?options, arguments)))) ''destination''
             = None"
    and 4: "expression (dest_opts (state_of (parse_arguments env (Inr (?options, arguments)))))
             = None"
    using for_options_initial_destination [of env ?options] by (simp_all add: loop)
  have 5: "parse_arguments env (Inr (?options, arguments))
             = Raised (Invalid_ionice_class (strip (lower v))) st \<and>
           main env (Inr (?options, arguments))
             = \<lparr>displayed = shown st @ [Warning (Invalid_ionice_class (strip (lower v)))],
                executed = None, ended = Exit 1\<rparr>"
    if "for_options env pre initial = Next st" for st
  proof -
    from parse_arguments_stops [OF that raised]
    have stop: "parse_arguments env (Inr (?options, arguments))
                  = Raised (Invalid_ionice_class (strip (lower v))) st" .
    from main_Raised [OF stop] stop show ?thesis
      by simp
  qed
  have 6: "program_opts (state_of (parse_arguments env (Inr (?options, arguments))))
               ''backup_enabled'' = None \<and>
           program_opts (state_of (parse_arguments env (Inr (?options, arguments))))
               ''snapshot_enabled'' = None \<and>
           program_opts (state_of (parse_arguments env (Inr (?options, arguments))))
               ''rotate_enabled'' = None"
    if "\<forall>x \<in> set pre.
          fst x \<notin> {''-b'', ''--backup'', ''-s'', ''--snapshot'', ''-r'', ''--rotate''}"
  proof -
    have "state_of (parse_arguments env (Inr (?options, arguments)))
            = state_of (for_options env pre initial)"
      by (simp add: loop for_options_stop_state [of env option v, OF raised])
    with for_options_no_action_flags [OF that, of env initial] show ?thesis
      by (simp add: initial_def)
  qed
  from 1 loop 3 4 5 6 show ?thesis
    by blast
qed

theorem invalid_ionice_class_witness:
  "''--ionice'' \<in> {''-i'', ''--ionice''} \<and>
   \<not> validate_ionice_class (example_env None True None) (strip (lower '' Bogus '')) \<and>
   for_options (example_env None True None) [(''-f'', [])] initial
     = Next \<lparr>program_opts = [''force'' \<mapsto> VBool True],
             dest_opts = \<lparr>ssh_tunnel = None, expression = None\<rparr>, shown = []\<rparr> \<and>
   main (example_env None True None)
        (Inr ([(''-f'', []), (''--ionice'', '' Bogus ''), (''-b'', [])], [''/backup'']))
     = \<lparr>displayed = [Warning (Invalid_ionice_class ''bogus'')], executed = None, ended = Exit 1\<rparr> \<and>
   parse_arguments (example_env None True None)
        (Inr ([(''-f'', []), (''--ionice'', '' Bogus ''), (''-b'', [])], [''/backup'']))
     = Raised (Invalid_ionice_class ''bogus'')
         \<lparr>program_opts = [''force'' \<mapsto> VBool True],
            dest_opts = \<lparr>ssh_tunnel = None, expression = None\<rparr>, shown = []\<rparr>"
proof -
  have v: "strip (lower '' Bogus '') = ''bogus''"
    by code_simp
  have a: "''--ionice'' \<in> {''-i'', ''--ionice''}"
    by simp
  have b: "\<not> validate_ionice_class (example_env None True None) (strip (lower '' Bogus ''))"
    by (simp add: v example_env_def)
  have c: "for_options (example_env None True None) [(''-f'', [])] initial
             = Next \<lparr>program_opts = [''force'' \<mapsto> VBool True],
                     dest_opts = \<lparr>ssh_tunnel = None, expression = None\<rparr>, shown = []\<rparr>"
    by (simp add: loop_body_def initial_def)
  from invalid_ionice_class [OF a b, of "[(''-f'', [])]" "[(''-b'', [])]" "[''/backup'']"] c
  have "parse_arguments (example_env None True None)
          (Inr ([(''-f'', [])] @ (''--ionice'', '' Bogus '') # [(''-b'', [])], [''/backup'']))
          = Raised (Invalid_ionice_class (strip (lower '' Bogus '')))
              \<lparr>program_opts = [''force'' \<mapsto> VBool True],
                 dest_opts = \<lparr>ssh_tunnel = None, expression = None\<rparr>, shown = []\<rparr> \<and>
        main (example_env None True None)
          (Inr ([(''-f'', [])] @ (''--ionice'', '' Bogus '') # [(''-b'', [])], [''/backup'']))
          = \<lparr>displayed = shown \<lparr>program_opts = [''force'' \<mapsto> (VBool True :: destination_options val)],
                 dest_opts = \<lparr>ssh_tunnel = None, expression = None\<rparr>, shown = []\<rparr>
               @ [Warning (Invalid_ionice_class (strip (lower '' Bogus '')))],
             executed = None, ended = Exit 1\<rparr>"
    by blast
  then have "parse_arguments (example_env None True None)
          (Inr ([(''-f'', []), (''--ionice'', '' Bogus ''), (''-b'', [])], [''/backup'']))
          = Raised (Invalid_ionice_class ''bogus'')
              \<lparr>program_opts = [''force'' \<mapsto> VBool True],
                 dest_opts = \<lparr>ssh_tunnel = None, expression = None\<rparr>, shown = []\<rparr>"
    and "main (example_env None True None)
          (Inr ([(''-f'', []), (''--ionice'', '' Bogus ''), (''-b'', [])], [''/backup'']))
          = \<lparr>displayed = [Warning (Invalid_ionice_class ''bogus'')],
             executed = None, ended = Exit 1\<rparr>"
    by (simp_all add: v)
  with a b c show ?thesis
    by (intro conjI)
qed


subsection \<open>Source and destination\<close>

text \<open>
  The loop never writes the key \<open>source\<close>; then the statements after the loop for two
  arguments, for one, and for none.
\<close>

lemma for_options_initial_source:
  fixes env :: "'d env"
  shows "program_opts (state_of (for_options env options initial)) ''source'' = None"
proof -
  have "program_opts (state_of (for_options env options initial)) ''source''
          = program_opts (initial :: 'd state) ''source''"
    by (rule for_options_keeps [where f = "\<lambda>s. program_opts s ''source''"])
       (rule loop_body_source)
  then show ?thesis
    by (simp add: initial_def)
qed

lemma positional_two:
  "positional_arguments env [src, dst] st =
     (case Destination env ((dest_opts st)\<lparr>expression := Some dst\<rparr>) of
        Inl m \<Rightarrow>
          Raised (Destination_error m)
            (st\<lparr>program_opts := (program_opts st)(''source'' \<mapsto> VStr src),
                dest_opts := (dest_opts st)\<lparr>expression := Some dst\<rparr>\<rparr>)
      | Inr d \<Rightarrow>
          Next (st\<lparr>program_opts := (program_opts st)(''source'' \<mapsto> VStr src,
                                                       ''destination'' \<mapsto> VDest d),
                   dest_opts := (dest_opts st)\<lparr>expression := Some dst\<rparr>\<rparr>))"
  by (simp add: positional_arguments_def Let_def split: sum.splits)

lemma positional_one:
  "positional_arguments env [dst] st =
     (case Destination env ((dest_opts st)\<lparr>expression := Some dst\<rparr>) of
        Inl m \<Rightarrow> Raised (Destination_error m) (st\<lparr>dest_opts := (dest_opts st)\<lparr>expression := Some dst\<rparr>\<rparr>)
      | Inr d \<Rightarrow>
          Next (st\<lparr>program_opts := (program_opts st)(''destination'' \<mapsto> VDest d),
                   dest_opts := (dest_opts st)\<lparr>expression := Some dst\<rparr>\<rparr>))"
  by (simp add: positional_arguments_def Let_def split: sum.splits)

lemma positional_none:
  "positional_arguments env [] st =
     (if RSYNC_MODULE_PATH env = None \<or> RSYNC_MODULE_PATH env = Some []
      then (case usage env doc of
              Some m \<Rightarrow> Raised (Usage_error m) st
            | None \<Rightarrow> Returned (st\<lparr>shown := shown st @ [Usage]\<rparr>))
      else Next st)"
  by (simp add: positional_arguments_def)

text \<open>
  Claim C5. Let the loop over the options reach its end.
  \<^item> With two positional arguments the first is stored under \<open>source\<close> and the second is the
    expression of the destination.
  \<^item> With one, it is the expression of the destination and \<open>source\<close> is not set.
  \<^item> In both cases, when \<open>Destination\<close> accepts its arguments, the object is stored under
    \<open>destination\<close> and the first \<open>try\<close> block reaches its end.
  \<^item> With none, when \<open>RSYNC_MODULE_PATH\<close> is unset or empty, \<open>main\<close> calls \<open>usage(__doc__)\<close>
    and executes nothing: when the call returns, \<open>main\<close> returns; when it raises, which
    \<open>None\<close> for \<open>__doc__\<close> makes possible, the handler of the \<open>try\<close> block prints the error
    and the exit status is 1.
  \<^item> With none, when \<open>RSYNC_MODULE_PATH\<close> is set and not empty, the first \<open>try\<close> block reaches
    its end with the state the loop left, without a destination.
\<close>

theorem positional_arguments_assigned:
  assumes "for_options env options initial = Next st"
  shows "program_opts (state_of (parse_arguments env (Inr (options, [src, dst])))) ''source''
           = Some (VStr src) \<and>
         expression (dest_opts (state_of (parse_arguments env (Inr (options, [src, dst])))))
           = Some dst \<and>
         program_opts (state_of (parse_arguments env (Inr (options, [dst])))) ''source'' = None \<and>
         expression (dest_opts (state_of (parse_arguments env (Inr (options, [dst])))))
           = Some dst \<and>
         (\<forall>d. Destination env ((dest_opts st)\<lparr>expression := Some dst\<rparr>) = Inr d \<longrightarrow>
            parse_arguments env (Inr (options, [src, dst]))
              = Next (st\<lparr>program_opts := (program_opts st)(''source'' \<mapsto> VStr src,
                                                             ''destination'' \<mapsto> VDest d),
                         dest_opts := (dest_opts st)\<lparr>expression := Some dst\<rparr>\<rparr>) \<and>
            parse_arguments env (Inr (options, [dst]))
              = Next (st\<lparr>program_opts := (program_opts st)(''destination'' \<mapsto> VDest d),
                         dest_opts := (dest_opts st)\<lparr>expression := Some dst\<rparr>\<rparr>)) \<and>
         (RSYNC_MODULE_PATH env = None \<or> RSYNC_MODULE_PATH env = Some [] \<longrightarrow>
            main env (Inr (options, [])) =
              (case usage env doc of
                 None \<Rightarrow> \<lparr>displayed = shown st @ [Usage], executed = None, ended = Return\<rparr>
               | Some m \<Rightarrow> \<lparr>displayed = shown st @ [Warning (Usage_error m)],
                             executed = None, ended = Exit 1\<rparr>)) \<and>
         (\<not> (RSYNC_MODULE_PATH env = None \<or> RSYNC_MODULE_PATH env = Some []) \<longrightarrow>
            parse_arguments env (Inr (options, [])) = Next st)"
proof -
  have unset: "program_opts st ''source'' = None"
    using for_options_initial_source [of env options] by (simp add: assms)
  have two: "parse_arguments env (Inr (options, [src, dst])) = positional_arguments env [src, dst] st"
    and one: "parse_arguments env (Inr (options, [dst])) = positional_arguments env [dst] st"
    and none: "parse_arguments env (Inr (options, [])) = positional_arguments env [] st"
    by (simp_all add: parse_arguments_def assms)
  have 1: "program_opts (state_of (parse_arguments env (Inr (options, [src, dst])))) ''source''
             = Some (VStr src)"
    and 2: "expression (dest_opts (state_of (parse_arguments env (Inr (options, [src, dst])))))
             = Some dst"
    by (simp_all add: two positional_two split: sum.splits)
  have 3: "program_opts (state_of (parse_arguments env (Inr (options, [dst])))) ''source'' = None"
    and 4: "expression (dest_opts (state_of (parse_arguments env (Inr (options, [dst])))))
             = Some dst"
    by (simp_all add: one positional_one unset split: sum.splits)
  have 5: "parse_arguments env (Inr (options, [src, dst]))
              = Next (st\<lparr>program_opts := (program_opts st)(''source'' \<mapsto> VStr src,
                                                             ''destination'' \<mapsto> VDest d),
                         dest_opts := (dest_opts st)\<lparr>expression := Some dst\<rparr>\<rparr>) \<and>
           parse_arguments env (Inr (options, [dst]))
              = Next (st\<lparr>program_opts := (program_opts st)(''destination'' \<mapsto> VDest d),
                         dest_opts := (dest_opts st)\<lparr>expression := Some dst\<rparr>\<rparr>)"
    if "Destination env ((dest_opts st)\<lparr>expression := Some dst\<rparr>) = Inr d" for d
    by (simp add: two one positional_two positional_one that)
  have 6: "main env (Inr (options, [])) =
              (case usage env doc of
                 None \<Rightarrow> \<lparr>displayed = shown st @ [Usage], executed = None, ended = Return\<rparr>
               | Some m \<Rightarrow> \<lparr>displayed = shown st @ [Warning (Usage_error m)],
                             executed = None, ended = Exit 1\<rparr>)"
    if "RSYNC_MODULE_PATH env = None \<or> RSYNC_MODULE_PATH env = Some []"
    using that by (simp add: main_def none positional_none split: option.splits)
  have 7: "parse_arguments env (Inr (options, [])) = Next st"
    if "\<not> (RSYNC_MODULE_PATH env = None \<or> RSYNC_MODULE_PATH env = Some [])"
    using that by (auto simp add: none positional_none)
  from 1 2 3 4 5 6 7 show ?thesis
    by blast
qed

theorem positional_arguments_assigned_witness:
  "for_options (example_env None True None) [(''-f'', [])] initial
     = Next \<lparr>program_opts = [''force'' \<mapsto> VBool True],
             dest_opts = \<lparr>ssh_tunnel = None, expression = None\<rparr>, shown = []\<rparr> \<and>
   parse_arguments (example_env None True None) (Inr ([(''-f'', [])], [''/etc'', ''/backup'']))
     = Next \<lparr>program_opts =
               [''force'' \<mapsto> VBool True, ''source'' \<mapsto> VStr ''/etc'',
                ''destination'' \<mapsto> VDest \<lparr>ssh_tunnel = None, expression = Some ''/backup''\<rparr>],
             dest_opts = \<lparr>ssh_tunnel = None, expression = Some ''/backup''\<rparr>, shown = []\<rparr> \<and>
   parse_arguments (example_env None True None) (Inr ([(''-f'', [])], [''/backup'']))
     = Next \<lparr>program_opts =
               [''force'' \<mapsto> VBool True,
                ''destination'' \<mapsto> VDest \<lparr>ssh_tunnel = None, expression = Some ''/backup''\<rparr>],
             dest_opts = \<lparr>ssh_tunnel = None, expression = Some ''/backup''\<rparr>, shown = []\<rparr> \<and>
   main (example_env None False None) (Inr ([], []))
     = \<lparr>displayed = [Usage], executed = None, ended = Return\<rparr> \<and>
   main (example_env None True None) (Inr ([], []))
     = \<lparr>displayed = [Warning (Usage_error ''expected string or bytes-like object'')],
        executed = None, ended = Exit 1\<rparr> \<and>
   parse_arguments (example_env None True (Some ''/srv/backups'')) (Inr ([], [])) = Next initial"
proof -
  let ?st = "\<lparr>program_opts = [''force'' \<mapsto> (VBool True :: destination_options val)],
              dest_opts = \<lparr>ssh_tunnel = None, expression = None\<rparr>, shown = []\<rparr>"
  have a: "for_options (example_env None True None) [(''-f'', [])] initial = Next ?st"
    by (simp add: loop_body_def initial_def)
  have d: "Destination (example_env None True None)
             ((dest_opts ?st)\<lparr>expression := Some ''/backup''\<rparr>)
           = Inr \<lparr>ssh_tunnel = None, expression = Some ''/backup''\<rparr>"
    by (simp add: example_env_def)
  have e: "for_options env [] initial = Next initial" for env :: "destination_options env"
    by simp
  have 1: "parse_arguments (example_env None True None) (Inr ([(''-f'', [])], [''/etc'', ''/backup'']))
             = Next \<lparr>program_opts =
                       [''force'' \<mapsto> VBool True, ''source'' \<mapsto> VStr ''/etc'',
                        ''destination'' \<mapsto> VDest \<lparr>ssh_tunnel = None, expression = Some ''/backup''\<rparr>],
                     dest_opts = \<lparr>ssh_tunnel = None, expression = Some ''/backup''\<rparr>, shown = []\<rparr>"
    and 2: "parse_arguments (example_env None True None) (Inr ([(''-f'', [])], [''/backup'']))
             = Next \<lparr>program_opts =
                       [''force'' \<mapsto> VBool True,
                        ''destination'' \<mapsto> VDest \<lparr>ssh_tunnel = None, expression = Some ''/backup''\<rparr>],
                     dest_opts = \<lparr>ssh_tunnel = None, expression = Some ''/backup''\<rparr>, shown = []\<rparr>"
    using positional_arguments_assigned [OF a, where src = "''/etc''" and dst = "''/backup''"] d
    by simp_all
  have 3: "main (example_env None False None) (Inr ([], []))
             = \<lparr>displayed = [Usage], executed = None, ended = Return\<rparr>"
    using positional_arguments_assigned [OF e, of "example_env None False None"]
    by (simp add: example_env_def doc_def initial_def)
  have 4: "main (example_env None True None) (Inr ([], []))
             = \<lparr>displayed = [Warning (Usage_error ''expected string or bytes-like object'')],
                executed = None, ended = Exit 1\<rparr>"
    using positional_arguments_assigned [OF e, of "example_env None True None"]
    by (simp add: example_env_def doc_def initial_def)
  have 5: "parse_arguments (example_env None True (Some ''/srv/backups'')) (Inr ([], []))
             = Next initial"
    using positional_arguments_assigned [OF e, of "example_env None True (Some ''/srv/backups'')"]
    by (simp add: example_env_def)
  from a 1 2 3 4 5 show ?thesis
    by (intro conjI)
qed

end
